theory Spec2Isabelle
  imports Main
begin

section \<open>JavaScript values\<close>

text \<open>
  \<^verbatim>\<open>src/wallets.js\<close> works on untyped JavaScript objects: parameter dictionaries, the
  bodies of server responses and the payloads it sends. They are kept untyped here, so
  that "this payload has no \<^verbatim>\<open>xprv\<close> field" is a statement about the object the code
  builds. An object is its list of properties in insertion order (the first binding of a
  name is the property). Numbers are the key counts \<^verbatim>\<open>m\<close> and \<^verbatim>\<open>n\<close>, which the code
  only compares with the literals 2 and 3; they are integers here.
\<close>

datatype jsval =
    JUndefined
  | JNull
  | JBool bool
  | JNum int
  | JStr string
  | JArr "jsval list"
  | JObj "(string \<times> jsval) list"

datatype error =
    Error string       \<comment> \<open>\<^verbatim>\<open>throw new Error(msg)\<close>, and the failures of collaborators\<close>
  | TypeError string   \<comment> \<open>a property read or method call on a value that has none\<close>

text \<open>JavaScript truthiness, as used by \<^verbatim>\<open>!x\<close>, \<^verbatim>\<open>if (x)\<close> and \<^verbatim>\<open>a || b\<close>.\<close>

fun truthy :: "jsval \<Rightarrow> bool" where
  "truthy JUndefined = False"
| "truthy JNull = False"
| "truthy (JBool b) = b"
| "truthy (JNum n) = (n \<noteq> 0)"
| "truthy (JStr s) = (s \<noteq> [])"
| "truthy (JArr xs) = True"
| "truthy (JObj kvs) = True"

definition js_or :: "jsval \<Rightarrow> jsval \<Rightarrow> jsval" where
  "js_or a b = (if truthy a then a else b)"

text \<open>
  \<^verbatim>\<open>v.f\<close> on a value that is neither \<^verbatim>\<open>undefined\<close> nor \<^verbatim>\<open>null\<close>: the property of an
  object, \<^verbatim>\<open>undefined\<close> when there is none. \<open>get_prop\<close> is the same read on any value: it
  throws a TypeError on \<^verbatim>\<open>undefined\<close> and \<^verbatim>\<open>null\<close>.
\<close>

fun field :: "jsval \<Rightarrow> string \<Rightarrow> jsval" where
  "field (JObj kvs) f = (case map_of kvs f of Some v \<Rightarrow> v | None \<Rightarrow> JUndefined)"
| "field v f = JUndefined"

fun nullish :: "jsval \<Rightarrow> bool" where
  "nullish JUndefined = True"
| "nullish JNull = True"
| "nullish v = False"

definition get_prop :: "jsval \<Rightarrow> string \<Rightarrow> error + jsval" where
  "get_prop v f = (if nullish v then Inl (TypeError f) else Inr (field v f))"

text \<open>\<^verbatim>\<open>o.f = v\<close>: replaces the property, or appends it; no effect on a primitive.\<close>

fun assign :: "(string \<times> jsval) list \<Rightarrow> string \<Rightarrow> jsval \<Rightarrow> (string \<times> jsval) list" where
  "assign [] f v = [(f, v)]"
| "assign ((k, x) # kvs) f v = (if k = f then (k, v) # kvs else (k, x) # assign kvs f v)"

fun set_field :: "jsval \<Rightarrow> string \<Rightarrow> jsval \<Rightarrow> jsval" where
  "set_field (JObj kvs) f v = JObj (assign kvs f v)"
| "set_field o' f v = o'"

text \<open>The property names of an object, in order.\<close>

fun keys :: "jsval \<Rightarrow> string list" where
  "keys (JObj kvs) = map fst kvs"
| "keys v = []"

text \<open>
  \<^verbatim>\<open>s.split(",")\<close>: the pieces between the separators; never empty (\<^verbatim>\<open>"".split(",")\<close> is
  \<^verbatim>\<open>[""]\<close>). On a value that is not a string the call throws.
\<close>

fun split_on :: "char \<Rightarrow> string \<Rightarrow> string list" where
  "split_on c [] = [[]]"
| "split_on c (x # xs) =
     (if x = c then [] # split_on c xs
      else (case split_on c xs of
              [] \<Rightarrow> [[x]]
            | p # ps \<Rightarrow> (x # p) # ps))"

fun js_split :: "jsval \<Rightarrow> error + string list" where
  "js_split (JStr s) = Inr (split_on CHR '','' s)"
| "js_split v = Inl (TypeError ''split'')"

section \<open>The world outside \<^verbatim>\<open>wallets.js\<close>\<close>

text \<open>
  Every call that leaves the process is logged. \<^verbatim>\<open>wallets.js\<close> issues HTTP requests itself
  (\<^verbatim>\<open>this.bitgo.get(this.bitgo.url(p))\<close>, \<^verbatim>\<open>this.bitgo.post(this.bitgo.url(p)).send(body)\<close>) and
  calls three collaborators that talk to the service: \<^verbatim>\<open>bitgo.getECDHSharingKeychain()\<close>,
  \<^verbatim>\<open>bitgo.keychains().add(params)\<close> and \<^verbatim>\<open>bitgo.keychains().createBitGo()\<close>.
  A URL is the literal path, with the value the code appends to it.
\<close>

datatype url = Path string | PathWith string jsval

datatype call =
    HttpGet url
  | HttpPost url jsval
  | GetECDHSharingKeychain
  | KeychainsAdd jsval
  | KeychainsCreateBitGo

text \<open>
  Modelled from the spec: which calls change remote state is not visible in
  \<^verbatim>\<open>wallets.js\<close> for the three collaborators. Section 6 of the specification lists
  \<^verbatim>\<open>fetchShare\<close> and \<^verbatim>\<open>fetchECDHSharingKeychain\<close> as fetches, and \<^verbatim>\<open>registerKeychain\<close>,
  \<^verbatim>\<open>createServiceKeychain\<close>, \<^verbatim>\<open>createWallet\<close> and \<^verbatim>\<open>finalizeShare\<close> as the operations that
  create or update.
\<close>

fun mutating :: "call \<Rightarrow> bool" where
  "mutating (HttpGet u) = False"
| "mutating GetECDHSharingKeychain = False"
| "mutating (HttpPost u b) = True"
| "mutating (KeychainsAdd p) = True"
| "mutating KeychainsCreateBitGo = True"

text \<open>
  The state threaded through an operation: the log of calls issued so far, and the
  amount of local randomness consumed (key generation and the cipher's salt and IV draw
  from it).
\<close>

record world =
  calls :: "call list"
  rand :: nat

text \<open>
  The collaborators whose code is not in \<^verbatim>\<open>wallets.js\<close> are parameters:
  \<^verbatim>\<open>common.validateParams(params, expected, optional)\<close> (\<open>None\<close> when it accepts, the error
  it throws otherwise), \<^verbatim>\<open>bitgo.decrypt({password, input})\<close>, \<^verbatim>\<open>bitgo.encrypt({password, input})\<close>,
  \<^verbatim>\<open>bitgo.keychains().create()\<close>, \<^verbatim>\<open>new BIP32(xprv)\<close>, \<^verbatim>\<open>key.derive(path)\<close>,
  \<^verbatim>\<open>bitgo.getECDHSecret({eckey, otherPubKeyHex})\<close> and \<^verbatim>\<open>new Wallet(bitgo, body)\<close>.
  \<open>remote\<close> is the service: its answer to a call may depend on all calls before it.
  \<open>encrypt\<close> and \<open>keychains_create\<close> take the randomness they draw.

  Modelled from the spec: \<^verbatim>\<open>keychains().create()\<close> returns a keychain with the two fields
  \<^verbatim>\<open>xpub\<close> and \<^verbatim>\<open>xprv\<close> (section 3: a locally generated keychain has a public and a private
  key string); \<open>keychains_create\<close> yields this pair.
\<close>

record env =
  validateParams :: "jsval \<Rightarrow> string list \<Rightarrow> string list \<Rightarrow> error option"
  remote :: "call list \<Rightarrow> call \<Rightarrow> error + jsval"
  decrypt :: "jsval \<Rightarrow> jsval \<Rightarrow> error + jsval"
  encrypt :: "nat \<Rightarrow> jsval \<Rightarrow> jsval \<Rightarrow> error + jsval"
  keychains_create :: "nat \<Rightarrow> string \<times> string"
  new_BIP32 :: "jsval \<Rightarrow> error + jsval"
  derive :: "jsval \<Rightarrow> jsval \<Rightarrow> error + jsval"
  getECDHSecret :: "jsval \<Rightarrow> jsval \<Rightarrow> error + jsval"
  new_Wallet :: "jsval \<Rightarrow> jsval"

section \<open>Promises as fallible state transformers\<close>

text \<open>
  A thrown exception and a rejected promise are both \<open>Inl\<close>; \<open>andThen m f\<close> is
  \<^verbatim>\<open>m.then(f)\<close> with one handler, which skips \<open>f\<close> when \<open>m\<close> failed. The optional node
  callback (\<^verbatim>\<open>.nodeify(callback)\<close>) is left out: the operations are modelled as called
  without one.
\<close>

type_synonym 'a io = "world \<Rightarrow> (error + 'a) \<times> world"

definition ret :: "'a \<Rightarrow> 'a io" where
  "ret x = (\<lambda>w. (Inr x, w))"

definition throw :: "error \<Rightarrow> 'a io" where
  "throw e = (\<lambda>w. (Inl e, w))"

definition lift :: "error + 'a \<Rightarrow> 'a io" where
  "lift r = (\<lambda>w. (r, w))"

definition andThen :: "'a io \<Rightarrow> ('a \<Rightarrow> 'b io) \<Rightarrow> 'b io" where
  "andThen m f = (\<lambda>w. case m w of
                        (Inl e, w') \<Rightarrow> (Inl e, w')
                      | (Inr v, w') \<Rightarrow> f v w')"

definition perform :: "env \<Rightarrow> call \<Rightarrow> jsval io" where
  "perform E c = (\<lambda>w. (remote E (calls w) c, w\<lparr>calls := calls w @ [c]\<rparr>))"

definition encryptM :: "env \<Rightarrow> jsval \<Rightarrow> jsval \<Rightarrow> jsval io" where
  "encryptM E password input = (\<lambda>w. (encrypt E (rand w) password input, w\<lparr>rand := Suc (rand w)\<rparr>))"

definition createM :: "env \<Rightarrow> jsval io" where
  "createM E = (\<lambda>w. (case keychains_create E (rand w) of
                        (pub, prv) \<Rightarrow> Inr (JObj [(''xpub'', JStr pub), (''xprv'', JStr prv)]),
                      w\<lparr>rand := Suc (rand w)\<rparr>))"

definition validate :: "env \<Rightarrow> jsval \<Rightarrow> string list \<Rightarrow> string list \<Rightarrow> unit io" where
  "validate E params expected optional =
     (case validateParams E params expected optional of
        Some e \<Rightarrow> throw e
      | None \<Rightarrow> ret ())"

text \<open>The calls issued between two states of the world.\<close>

definition issued :: "world \<Rightarrow> world \<Rightarrow> call list" where
  "issued w w' = drop (length (calls w)) (calls w')"

section \<open>The operations of \<^verbatim>\<open>wallets.js\<close>\<close>

subsection \<open>getShare\<close>

text \<open>\<^verbatim>\<open>'/walletshare/' + params.walletShareId\<close>\<close>

definition share_url :: "jsval \<Rightarrow> url" where
  "share_url params = PathWith ''/walletshare/'' (field params ''walletShareId'')"

definition getShare :: "env \<Rightarrow> jsval \<Rightarrow> jsval io" where
  "getShare E params0 =
     (let params = js_or params0 (JObj []) in
      andThen (validate E params [''walletShareId''] []) (\<lambda>_.
        perform E (HttpGet (share_url params))))"

subsection \<open>acceptShare\<close>

text \<open>
  Lines 106 to 118, the body of the callback that receives the sharing keychain, up to the
  decryption of the shared wallet xprv. Nothing here leaves the process; each step may
  throw. \<open>bindE\<close> is sequencing of such steps.
\<close>

definition bindE :: "error + 'a \<Rightarrow> ('a \<Rightarrow> error + 'b) \<Rightarrow> error + 'b" where
  "bindE r f = (case r of Inl e \<Rightarrow> Inl e | Inr v \<Rightarrow> f v)"

definition decryptSharedWalletXprv :: "env \<Rightarrow> jsval \<Rightarrow> jsval \<Rightarrow> jsval \<Rightarrow> error + jsval" where
  "decryptSharedWalletXprv E params walletShare sharingKeychain =
     bindE (get_prop sharingKeychain ''encryptedXprv'') (\<lambda>sharingEnc.
       if \<not> truthy sharingEnc
         then Inl (Error ''EncryptedXprv was not found on sharing keychain'')
       else
         bindE (decrypt E (field params ''userPassword'') sharingEnc) (\<lambda>xprv.
         let sharingKeychain = set_field sharingKeychain ''xprv'' xprv in
         bindE (new_BIP32 E (field sharingKeychain ''xprv'')) (\<lambda>rootExtKey.
         bindE (get_prop walletShare ''keychain'') (\<lambda>kc.
         bindE (get_prop kc ''path'') (\<lambda>path.
         bindE (derive E rootExtKey path) (\<lambda>extKey.
         bindE (get_prop extKey ''eckey'') (\<lambda>eckey.
         bindE (get_prop kc ''fromPubKey'') (\<lambda>fromPubKey.
         bindE (getECDHSecret E eckey fromPubKey) (\<lambda>secret.
         bindE (get_prop kc ''encryptedXprv'') (\<lambda>sharedEnc.
         decrypt E secret sharedEnc))))))))))"

text \<open>
  The first \<^verbatim>\<open>.then\<close> callback. It returns the wallet share; the closure variable
  \<^verbatim>\<open>encryptedSharedWalletXprv\<close>, which it may assign and the second callback reads, is
  returned beside it (\<^verbatim>\<open>undefined\<close> when it was not assigned).
\<close>

definition view_only :: "string list \<Rightarrow> bool" where
  "view_only permissions = (length permissions = 1 \<and> ''view'' \<in> set permissions)"

definition acceptShare_keys :: "env \<Rightarrow> jsval \<Rightarrow> jsval \<Rightarrow> (jsval \<times> jsval) io" where
  "acceptShare_keys E params walletShare =
     andThen (lift (get_prop walletShare ''permissions'')) (\<lambda>p.
     andThen (lift (js_split p)) (\<lambda>permissions.
       if view_only permissions then ret (walletShare, JUndefined)
       else if \<not> truthy (field params ''userPassword'')
         then throw (Error ''userPassword param must be provided to decrypt shared key'')
       else
         andThen (perform E GetECDHSharingKeychain) (\<lambda>sharingKeychain.
         andThen (lift (decryptSharedWalletXprv E params walletShare sharingKeychain))
           (\<lambda>decryptedSharedWalletXprv.
         let newWalletPassphrase =
               js_or (field params ''newWalletPassphrase'') (field params ''userPassword'') in
         andThen (encryptM E newWalletPassphrase decryptedSharedWalletXprv)
           (\<lambda>encryptedSharedWalletXprv.
         ret (walletShare, encryptedSharedWalletXprv))))))"

text \<open>The second \<^verbatim>\<open>.then\<close> callback: the finalize submission.\<close>

definition acceptShare_postBody :: "jsval \<Rightarrow> jsval" where
  "acceptShare_postBody encryptedSharedWalletXprv =
     (let postBody = JObj [(''state'', JStr ''accepted'')] in
      if truthy encryptedSharedWalletXprv
      then set_field postBody ''encryptedXprv'' encryptedSharedWalletXprv
      else postBody)"

definition acceptShare_post :: "env \<Rightarrow> jsval \<Rightarrow> jsval \<Rightarrow> jsval io" where
  "acceptShare_post E params encryptedSharedWalletXprv =
     perform E (HttpPost (share_url params) (acceptShare_postBody encryptedSharedWalletXprv))"

text \<open>
  \<^verbatim>\<open>this.getShare(...).then(first)\<close>: everything \<^verbatim>\<open>acceptShare\<close> does before the second
  callback, and then the whole operation.
\<close>

definition acceptShare_prepare :: "env \<Rightarrow> jsval \<Rightarrow> (jsval \<times> jsval) io" where
  "acceptShare_prepare E params =
     andThen (getShare E (JObj [(''walletShareId'', field params ''walletShareId'')]))
       (acceptShare_keys E params)"

definition acceptShare :: "env \<Rightarrow> jsval \<Rightarrow> jsval io" where
  "acceptShare E params0 =
     (let params = js_or params0 (JObj []) in
      andThen (validate E params [''walletShareId''] []) (\<lambda>_.
      andThen (acceptShare_prepare E params) (\<lambda>(walletShare, encryptedSharedWalletXprv).
      acceptShare_post E params encryptedSharedWalletXprv)))"

text \<open>
  The parameters pass both validations (that of \<^verbatim>\<open>acceptShare\<close> and that of the
  \<^verbatim>\<open>getShare\<close> it calls) and the service answers the fetch with the share.
\<close>

definition share_fetched :: "env \<Rightarrow> jsval \<Rightarrow> world \<Rightarrow> jsval \<Rightarrow> bool" where
  "share_fetched E params w walletShare =
     (validateParams E (js_or params (JObj [])) [''walletShareId''] [] = None \<and>
      validateParams E (JObj [(''walletShareId'', field params ''walletShareId'')])
        [''walletShareId''] [] = None \<and>
      remote E (calls w) (HttpGet (share_url params)) = Inr walletShare)"

subsection \<open>add\<close>

fun is_array :: "jsval \<Rightarrow> bool" where
  "is_array (JArr xs) = True"
| "is_array v = False"

fun is_number :: "jsval \<Rightarrow> bool" where
  "is_number (JNum n) = True"
| "is_number v = False"

fun elements :: "jsval \<Rightarrow> jsval list" where
  "elements (JArr xs) = xs"
| "elements v = []"

text \<open>
  \<^verbatim>\<open>params.keychains.map(function(k) { return {xpub: k.xpub}; })\<close>; the read \<^verbatim>\<open>k.xpub\<close> throws
  on an entry that is \<^verbatim>\<open>undefined\<close> or \<^verbatim>\<open>null\<close>.
\<close>

fun xpubs_only :: "jsval list \<Rightarrow> error + jsval list" where
  "xpubs_only [] = Inr []"
| "xpubs_only (k # ks) =
     (case get_prop k ''xpub'' of
        Inl e \<Rightarrow> Inl e
      | Inr x \<Rightarrow> (case xpubs_only ks of
                    Inl e \<Rightarrow> Inl e
                  | Inr r \<Rightarrow> Inr (JObj [(''xpub'', x)] # r)))"

definition add_walletParams :: "jsval \<Rightarrow> jsval list \<Rightarrow> jsval" where
  "add_walletParams params keychains =
     (let walletParams = JObj [(''label'', field params ''label''),
                               (''m'', field params ''m''),
                               (''n'', field params ''n''),
                               (''keychains'', JArr keychains)] in
      if truthy (field params ''enterprise'')
      then set_field walletParams ''enterprise'' (field params ''enterprise'')
      else walletParams)"

definition add :: "env \<Rightarrow> jsval \<Rightarrow> jsval io" where
  "add E params0 =
     (let params = js_or params0 (JObj []) in
      andThen (validate E params [] [''label'', ''enterprise'']) (\<lambda>_.
        if \<not> is_array (field params ''keychains'') \<or> \<not> is_number (field params ''m'')
           \<or> \<not> is_number (field params ''n'')
          then throw (Error ''invalid argument'')
        else if field params ''m'' \<noteq> JNum 2 \<or> field params ''n'' \<noteq> JNum 3
          then throw (Error ''unsupported multi-sig type'')
        else
          andThen (lift (xpubs_only (elements (field params ''keychains'')))) (\<lambda>keychains.
          andThen (perform E (HttpPost (Path ''/wallet'') (add_walletParams params keychains)))
            (\<lambda>body.
          ret (new_Wallet E body)))))"

subsection \<open>createWalletWithKeychains\<close>

definition create_walletParams :: "jsval \<Rightarrow> jsval \<Rightarrow> jsval \<Rightarrow> jsval \<Rightarrow> jsval" where
  "create_walletParams params userXpub backupXpub bitgoXpub =
     (let walletParams = JObj [(''label'', field params ''label''),
                               (''m'', JNum 2),
                               (''n'', JNum 3),
                               (''keychains'', JArr [JObj [(''xpub'', userXpub)],
                                                     JObj [(''xpub'', backupXpub)],
                                                     JObj [(''xpub'', bitgoXpub)]])] in
      if truthy (field params ''enterprise'')
      then set_field walletParams ''enterprise'' (field params ''enterprise'')
      else walletParams)"

text \<open>
  Lines 208 to 251: the registrations, the service keychain, the wallet, and the result.
\<close>

definition key1Params :: "jsval \<Rightarrow> jsval" where
  "key1Params userKeychain =
     JObj [(''xpub'', field userKeychain ''xpub''),
           (''encryptedXprv'', field userKeychain ''encryptedXprv'')]"

definition key2Params :: "jsval \<Rightarrow> jsval" where
  "key2Params backupKeychain = JObj [(''xpub'', field backupKeychain ''xpub'')]"

definition createWalletWithKeychains_chain :: "env \<Rightarrow> jsval \<Rightarrow> jsval \<Rightarrow> jsval \<Rightarrow> jsval io" where
  "createWalletWithKeychains_chain E params userKeychain backupKeychain =
     andThen (perform E (KeychainsAdd (key1Params userKeychain))) (\<lambda>keychain.
     andThen (perform E (KeychainsAdd (key2Params backupKeychain))) (\<lambda>keychain.
     andThen (perform E KeychainsCreateBitGo) (\<lambda>bitgoKeychain.
     andThen (lift (get_prop bitgoKeychain ''xpub'')) (\<lambda>bitgoXpub.
     andThen (add E (create_walletParams params (field userKeychain ''xpub'')
                       (field backupKeychain ''xpub'') bitgoXpub)) (\<lambda>result.
     ret (JObj [(''wallet'', result),
                (''userKeychain'', userKeychain),
                (''backupKeychain'', backupKeychain),
                (''bitgoKeychain'', bitgoKeychain),
                (''warning'',
                 JStr ''Be sure to backup the backup keychain -- it is not stored anywhere else!'')])
     )))))"

text \<open>Lines 191 to 204, the keys made locally, and then the chain.\<close>

definition createWalletWithKeychains :: "env \<Rightarrow> jsval \<Rightarrow> jsval io" where
  "createWalletWithKeychains E params0 =
     (let params = js_or params0 (JObj []) in
      andThen (validate E params [''passphrase''] [''label'', ''backupXpub'', ''enterprise''])
        (\<lambda>_.
      andThen (createM E) (\<lambda>userKeychain.
      andThen (encryptM E (field params ''passphrase'') (field userKeychain ''xprv'')) (\<lambda>enc.
      let userKeychain = set_field userKeychain ''encryptedXprv'' enc in
      andThen (if \<not> truthy (field params ''backupXpub'')
               then createM E
               else ret (JObj [(''xpub'', field params ''backupXpub'')])) (\<lambda>backupKeychain.
      createWalletWithKeychains_chain E params userKeychain backupKeychain)))))"

text \<open>
  The environment that differs from \<open>E\<close> only in the private key of the keychain generated
  with randomness \<open>i\<close>.
\<close>

definition with_xprv :: "env \<Rightarrow> nat \<Rightarrow> string \<Rightarrow> env" where
  "with_xprv E i prv =
     E\<lparr>keychains_create :=
          (\<lambda>r. if r = i then (fst (keychains_create E r), prv) else keychains_create E r)\<rparr>"

section \<open>A sample environment\<close>

text \<open>
  One concrete choice of the collaborators, on which the theorems below are instantiated.
  Validation follows the calling convention of \<^verbatim>\<open>common.validateParams\<close>: the expected
  parameters are non-empty strings, the optional ones are strings when given. The service
  knows a view-only share and a share that also grants spending. The cipher prefixes the
  plaintext with the password and a bar.
\<close>

fun is_string :: "jsval \<Rightarrow> bool" where
  "is_string (JStr s) = True"
| "is_string v = False"

definition sample_validateParams :: "jsval \<Rightarrow> string list \<Rightarrow> string list \<Rightarrow> error option" where
  "sample_validateParams params expected optional =
     (if \<not> list_all (\<lambda>k. truthy (field params k)) expected then Some (Error ''Missing parameter'')
      else if \<not> list_all (\<lambda>k. is_string (field params k)) expected
        then Some (Error ''Expecting parameter string'')
      else if \<not> list_all (\<lambda>k. \<not> truthy (field params k) \<or> is_string (field params k)) optional
        then Some (Error ''Expecting parameter string'')
      else None)"

definition sample_share :: "jsval \<Rightarrow> jsval" where
  "sample_share ident =
     (if ident = JStr ''view-share''
      then JObj [(''id'', ident), (''permissions'', JStr ''view''), (''state'', JStr ''pending'')]
      else JObj [(''id'', ident), (''permissions'', JStr ''spend,view''),
                 (''state'', JStr ''pending''),
                 (''keychain'', JObj [(''path'', JStr ''m/999999/1/2''),
                                      (''fromPubKey'', JStr ''02aa''),
                                      (''encryptedXprv'', JStr ''k02aa|xprv-wallet'')])])"

fun sample_remote :: "call list \<Rightarrow> call \<Rightarrow> error + jsval" where
  "sample_remote history (HttpGet (PathWith p ident)) = Inr (sample_share ident)"
| "sample_remote history (HttpGet (Path p)) = Inl (Error ''not found'')"
| "sample_remote history (HttpPost u body) = Inr body"
| "sample_remote history GetECDHSharingKeychain =
     Inr (JObj [(''xpub'', JStr ''xpub-ecdh''), (''encryptedXprv'', JStr ''hunter2|k'')])"
| "sample_remote history (KeychainsAdd params) = Inr params"
| "sample_remote history KeychainsCreateBitGo = Inr (JObj [(''xpub'', JStr ''xpub-bitgo'')])"

fun sample_encrypt :: "nat \<Rightarrow> jsval \<Rightarrow> jsval \<Rightarrow> error + jsval" where
  "sample_encrypt r (JStr password) (JStr plain) = Inr (JStr (password @ CHR ''|'' # plain))"
| "sample_encrypt r password plain = Inl (Error ''encrypt: string expected'')"

fun sample_decrypt :: "jsval \<Rightarrow> jsval \<Rightarrow> error + jsval" where
  "sample_decrypt (JStr password) (JStr blob) =
     (if take (Suc (length password)) blob = password @ [CHR ''|'']
      then Inr (JStr (drop (Suc (length password)) blob))
      else Inl (Error ''decrypt: wrong password or corrupt blob''))"
| "sample_decrypt password blob = Inl (Error ''decrypt: string expected'')"

fun sample_BIP32 :: "jsval \<Rightarrow> error + jsval" where
  "sample_BIP32 (JStr s) = Inr (JObj [(''eckey'', JStr s)])"
| "sample_BIP32 v = Inl (Error ''invalid extended key'')"

fun sample_derive :: "jsval \<Rightarrow> jsval \<Rightarrow> error + jsval" where
  "sample_derive k (JStr path) = Inr k"
| "sample_derive k v = Inl (Error ''invalid path'')"

fun sample_secret :: "jsval \<Rightarrow> jsval \<Rightarrow> error + jsval" where
  "sample_secret (JStr priv) (JStr pub) = Inr (JStr (priv @ pub))"
| "sample_secret a b = Inl (Error ''invalid key'')"

definition sample_env :: env where
  "sample_env = \<lparr>
     validateParams = sample_validateParams,
     remote = sample_remote,
     decrypt = sample_decrypt,
     encrypt = sample_encrypt,
     keychains_create = (\<lambda>r. (''xpub'' @ replicate r CHR ''+'', ''xprv'' @ replicate r CHR ''+'')),
     new_BIP32 = sample_BIP32,
     derive = sample_derive,
     getECDHSecret = sample_secret,
     new_Wallet = (\<lambda>body. JObj [(''wallet'', body)]) \<rparr>"

definition w0 :: world where
  "w0 = \<lparr> calls = [], rand = 0 \<rparr>"

text \<open>Parameter dictionaries used in the instances below.\<close>

definition unsupported_params :: jsval where
  "unsupported_params =
     JObj [(''m'', JNum 3), (''n'', JNum 5), (''keychains'', JArr [JObj [(''xpub'', JStr ''a'')]])]"

definition full_keychains :: "jsval list" where
  "full_keychains =
     [JObj [(''xpub'', JStr ''xpub-a''), (''xprv'', JStr ''xprv-a'')],
      JObj [(''xpub'', JStr ''xpub-b''), (''encryptedXprv'', JStr ''pw|xprv-b'')],
      JObj [(''xpub'', JStr ''xpub-c'')]]"

definition bare_keychains :: "jsval list" where
  "bare_keychains =
     [JObj [(''xpub'', JStr ''xpub-a'')],
      JObj [(''xpub'', JStr ''xpub-b'')],
      JObj [(''xpub'', JStr ''xpub-c'')]]"


definition no_password_params :: jsval where
  "no_password_params = JObj [(''walletShareId'', JStr ''spend-share'')]"

definition view_params :: jsval where
  "view_params = JObj [(''walletShareId'', JStr ''view-share'')]"

definition spend_params :: jsval where
  "spend_params =
     JObj [(''walletShareId'', JStr ''spend-share''), (''userPassword'', JStr ''hunter2''),
           (''newWalletPassphrase'', JStr ''correct horse'')]"

definition create_params :: jsval where
  "create_params = JObj [(''passphrase'', JStr ''p@ss''), (''label'', JStr ''L'')]"

definition create_params_cold :: jsval where
  "create_params_cold =
     JObj [(''passphrase'', JStr ''p@ss''), (''label'', JStr ''L''),
           (''backupXpub'', JStr ''xpub-cold'')]"

definition wallet_params :: "jsval list \<Rightarrow> jsval" where
  "wallet_params ks =
     JObj [(''label'', JStr ''L''), (''m'', JNum 2), (''n'', JNum 3), (''keychains'', JArr ks)]"

section \<open>Basic facts\<close>

lemmas io_defs = ret_def throw_def lift_def andThen_def perform_def encryptM_def createM_def
  validate_def

lemma js_or_field: "field p f \<noteq> JUndefined \<Longrightarrow> js_or p d = p"
  by (cases p) (simp_all add: js_or_def)

lemma issued_append [simp]: "issued w (w'\<lparr>calls := calls w @ cs\<rparr>) = cs"
  by (simp add: issued_def)

lemma issued_self [simp]: "issued w w = []"
  by (simp add: issued_def)

lemma issued_rand [simp]: "issued w (w'\<lparr>rand := r\<rparr>) = issued w w'"
  by (simp add: issued_def)

section \<open>add\<close>

lemma xpubs_only_cong:
  "map (\<lambda>k. get_prop k ''xpub'') ks = map (\<lambda>k. get_prop k ''xpub'') ks' \<Longrightarrow>
   xpubs_only ks = xpubs_only ks'"
proof (induction ks arbitrary: ks')
  case Nil
  then show ?case by simp
next
  case (Cons k ks)
  then obtain k' ks'' where "ks' = k' # ks''" by (cases ks') auto
  with Cons show ?case by (auto split: sum.splits)
qed

lemma xpubs_only_shape:
  "xpubs_only ks = Inr r \<Longrightarrow> r = map (\<lambda>k. JObj [(''xpub'', field k ''xpub'')]) ks"
  by (induction ks arbitrary: r) (auto simp: get_prop_def split: sum.splits if_splits)

lemma add_walletParams_keychains:
  "field (add_walletParams p kcs) ''keychains'' = JArr kcs"
  by (simp add: add_walletParams_def Let_def)

lemma add_walletParams_keys:
  "set (keys (add_walletParams p kcs)) \<subseteq> {''label'', ''m'', ''n'', ''keychains'', ''enterprise''}"
  by (simp add: add_walletParams_def Let_def)

lemma add_calls:
  assumes "field p ''keychains'' = JArr ks"
  shows "issued w (snd (add E p w)) = [] \<or>
         (\<exists>kcs. xpubs_only ks = Inr kcs \<and>
            issued w (snd (add E p w)) = [HttpPost (Path ''/wallet'') (add_walletParams p kcs)])"
proof -
  have p: "js_or p (JObj []) = p"
    using assms js_or_field [of p "''keychains''"] by simp
  show ?thesis
    using assms by (auto simp: add_def p io_defs split: option.splits sum.splits)
qed

text \<open>
  C6. A call of \<^verbatim>\<open>add\<close> whose \<^verbatim>\<open>keychains\<close> is an array and whose \<^verbatim>\<open>m\<close> and \<^verbatim>\<open>n\<close> are
  numbers other than 2 and 3 fails, and the world is as before the call: no network call
  was issued. The error is \<^verbatim>\<open>Error('unsupported multi-sig type')\<close>, unless the parameter
  validation that runs first has rejected the dictionary with an error of its own.
\<close>

theorem add_unsupported_multisig:
  assumes "field params ''keychains'' = JArr ks"
      and "field params ''m'' = JNum m"
      and "field params ''n'' = JNum n"
      and "m \<noteq> 2 \<or> n \<noteq> 3"
  shows "add E params w =
           (Inl (case validateParams E params [] [''label'', ''enterprise''] of
                   Some e \<Rightarrow> e
                 | None \<Rightarrow> Error ''unsupported multi-sig type''), w)
         \<and> issued w (snd (add E params w)) = []"
proof -
  have p: "js_or params (JObj []) = params"
    using assms(2) js_or_field [of params "''m''"] by simp
  show ?thesis
    using assms by (auto simp: add_def p io_defs split: option.splits)
qed

theorem add_unsupported_multisig_witness:
  "add sample_env unsupported_params w0 = (Inl (Error ''unsupported multi-sig type''), w0)
   \<and> issued w0 (snd (add sample_env unsupported_params w0)) = []"
  using add_unsupported_multisig [of unsupported_params "[JObj [(''xpub'', JStr ''a'')]]" 3 5
      sample_env w0]
  by (simp add: unsupported_params_def sample_env_def sample_validateParams_def)

text \<open>
  C9. What \<^verbatim>\<open>add\<close> does is determined by the \<^verbatim>\<open>xpub\<close> of each keychain entry: two parameter
  dictionaries that differ only in the other fields of their keychain entries (such as
  \<^verbatim>\<open>xprv\<close> or \<^verbatim>\<open>encryptedXprv\<close>) give the same result and the same calls. Every call issued
  is the wallet-creation request, and the \<^verbatim>\<open>keychains\<close> of its payload are the objects
  \<^verbatim>\<open>{xpub: k.xpub}\<close>, one for each entry \<^verbatim>\<open>k\<close>, in order.
\<close>

theorem add_sends_only_xpubs:
  assumes "field p ''keychains'' = JArr ks"
      and "field p' ''keychains'' = JArr ks'"
      and "map (\<lambda>k. get_prop k ''xpub'') ks = map (\<lambda>k. get_prop k ''xpub'') ks'"
      and "\<forall>f \<in> {''label'', ''m'', ''n'', ''enterprise''}. field p f = field p' f"
      and "validateParams E p [] [''label'', ''enterprise'']
             = validateParams E p' [] [''label'', ''enterprise'']"
  shows "add E p w = add E p' w \<and>
         (\<forall>c \<in> set (issued w (snd (add E p w))). \<exists>b.
            c = HttpPost (Path ''/wallet'') b \<and>
            field b ''keychains'' = JArr (map (\<lambda>k. JObj [(''xpub'', field k ''xpub'')]) ks) \<and>
            set (keys b) \<subseteq> {''label'', ''m'', ''n'', ''keychains'', ''enterprise''})"
proof -
  have p: "js_or p (JObj []) = p"
    using assms(1) js_or_field [of p "''keychains''"] by simp
  have p': "js_or p' (JObj []) = p'"
    using assms(2) js_or_field [of p' "''keychains''"] by simp
  have x: "xpubs_only ks = xpubs_only ks'"
    using assms(3) by (rule xpubs_only_cong)
  have w: "add_walletParams p kcs = add_walletParams p' kcs" for kcs
    using assms(4) by (simp add: add_walletParams_def Let_def)
  have eq: "add E p w = add E p' w"
    using assms(1,2,4,5) by (simp add: add_def p p' x w validate_def)
  have sh: "\<exists>b. c = HttpPost (Path ''/wallet'') b \<and>
            field b ''keychains'' = JArr (map (\<lambda>k. JObj [(''xpub'', field k ''xpub'')]) ks) \<and>
            set (keys b) \<subseteq> {''label'', ''m'', ''n'', ''keychains'', ''enterprise''}"
    if "c \<in> set (issued w (snd (add E p w)))" for c
  proof -
    from add_calls [OF assms(1), of w E] that
    obtain kcs where k: "xpubs_only ks = Inr kcs"
      and c: "c = HttpPost (Path ''/wallet'') (add_walletParams p kcs)"
      by auto
    from k have "kcs = map (\<lambda>k. JObj [(''xpub'', field k ''xpub'')]) ks"
      by (rule xpubs_only_shape)
    with c show ?thesis
      using add_walletParams_keys [of p kcs] by (simp add: add_walletParams_keychains)
  qed
  from eq sh show ?thesis by blast
qed

theorem add_sends_only_xpubs_witness:
  "add sample_env (wallet_params full_keychains) w0
     = add sample_env (wallet_params bare_keychains) w0
   \<and> issued w0 (snd (add sample_env (wallet_params full_keychains) w0))
     = [HttpPost (Path ''/wallet'') (wallet_params bare_keychains)]"
proof -
  have run: "issued w0 (snd (add sample_env (wallet_params full_keychains) w0))
               = [HttpPost (Path ''/wallet'') (wallet_params bare_keychains)]"
    by (simp add: add_def wallet_params_def full_keychains_def bare_keychains_def js_or_def
        sample_env_def sample_validateParams_def io_defs get_prop_def add_walletParams_def
        w0_def issued_def)
  from add_sends_only_xpubs [of "wallet_params full_keychains" full_keychains
      "wallet_params bare_keychains" bare_keychains sample_env w0]
  have "add sample_env (wallet_params full_keychains) w0
          = add sample_env (wallet_params bare_keychains) w0"
    by (simp add: wallet_params_def full_keychains_def bare_keychains_def get_prop_def
        sample_env_def sample_validateParams_def)
  with run show ?thesis by simp
qed

section \<open>acceptShare\<close>

lemma field_js_or [simp]: "field (js_or p (JObj [])) f = field p f"
  by (cases p) (simp_all add: js_or_def)

lemma js_or_obj [simp]: "js_or (JObj kvs) d = JObj kvs"
  by (simp add: js_or_def)

lemma decryptSharedWalletXprv_js_or [simp]:
  "decryptSharedWalletXprv E (js_or p (JObj [])) ws sk = decryptSharedWalletXprv E p ws sk"
  by (simp add: decryptSharedWalletXprv_def cong: if_cong)

lemma acceptShare_keys_js_or [simp]:
  "acceptShare_keys E (js_or p (JObj [])) = acceptShare_keys E p"
  by (rule ext) (simp add: acceptShare_keys_def cong: if_cong)

lemma share_url_js_or [simp]: "share_url (js_or p (JObj [])) = share_url p"
  by (simp add: share_url_def)

lemma acceptShare_post_js_or [simp]:
  "acceptShare_post E (js_or p (JObj [])) enc = acceptShare_post E p enc"
  by (simp add: acceptShare_post_def)

lemma acceptShare_prepare_js_or [simp]:
  "acceptShare_prepare E (js_or p (JObj [])) = acceptShare_prepare E p"
  by (simp add: acceptShare_prepare_def)

lemma getShare_run:
  "getShare E (JObj [(''walletShareId'', ident)]) w =
     (case validateParams E (JObj [(''walletShareId'', ident)]) [''walletShareId''] [] of
        Some e \<Rightarrow> (Inl e, w)
      | None \<Rightarrow> (remote E (calls w) (HttpGet (PathWith ''/walletshare/'' ident)),
                 w\<lparr>calls := calls w @ [HttpGet (PathWith ''/walletshare/'' ident)]\<rparr>))"
  by (simp add: getShare_def share_url_def io_defs split: option.splits)

text \<open>The first callback, case by case.\<close>

lemma acceptShare_keys_run:
  "acceptShare_keys E p ws w =
     (case get_prop ws ''permissions'' of Inl e \<Rightarrow> (Inl e, w) | Inr perms \<Rightarrow>
     (case js_split perms of Inl e \<Rightarrow> (Inl e, w) | Inr ps \<Rightarrow>
      if view_only ps then (Inr (ws, JUndefined), w)
      else if \<not> truthy (field p ''userPassword'')
        then (Inl (Error ''userPassword param must be provided to decrypt shared key''), w)
      else
        (let w1 = w\<lparr>calls := calls w @ [GetECDHSharingKeychain]\<rparr> in
         case remote E (calls w) GetECDHSharingKeychain of Inl e \<Rightarrow> (Inl e, w1) | Inr sk \<Rightarrow>
         (case decryptSharedWalletXprv E p ws sk of Inl e \<Rightarrow> (Inl e, w1) | Inr x \<Rightarrow>
         (case encrypt E (rand w)
                (js_or (field p ''newWalletPassphrase'') (field p ''userPassword'')) x of
            Inl e \<Rightarrow> (Inl e, w1\<lparr>rand := Suc (rand w)\<rparr>)
          | Inr enc \<Rightarrow> (Inr (ws, enc), w1\<lparr>rand := Suc (rand w)\<rparr>))))))"
  by (simp add: acceptShare_keys_def io_defs Let_def split: sum.splits)

lemma acceptShare_run:
  "acceptShare E params w =
     (case validateParams E (js_or params (JObj [])) [''walletShareId''] [] of
        Some e \<Rightarrow> (Inl e, w)
      | None \<Rightarrow>
        (case acceptShare_prepare E params w of
           (Inl e, w1) \<Rightarrow> (Inl e, w1)
         | (Inr (ws, enc), w1) \<Rightarrow>
             (remote E (calls w1) (HttpPost (share_url params) (acceptShare_postBody enc)),
              w1\<lparr>calls := calls w1 @ [HttpPost (share_url params) (acceptShare_postBody enc)]\<rparr>)))"
  by (simp add: acceptShare_def acceptShare_post_def share_url_def io_defs Let_def
      split: option.splits sum.splits prod.splits)

lemma acceptShare_prepare_run:
  "acceptShare_prepare E params w =
     (case validateParams E (JObj [(''walletShareId'', field params ''walletShareId'')])
             [''walletShareId''] [] of
        Some e \<Rightarrow> (Inl e, w)
      | None \<Rightarrow>
        (case remote E (calls w) (HttpGet (share_url params)) of
           Inl e \<Rightarrow> (Inl e, w\<lparr>calls := calls w @ [HttpGet (share_url params)]\<rparr>)
         | Inr ws \<Rightarrow> acceptShare_keys E params ws
                       (w\<lparr>calls := calls w @ [HttpGet (share_url params)]\<rparr>)))"
  by (simp add: acceptShare_prepare_def getShare_run share_url_def andThen_def
      split: option.splits sum.splits)

lemma acceptShare_keys_issued:
  "acceptShare_keys E p ws w = (r, w1) \<Longrightarrow>
   calls w1 = calls w \<or> calls w1 = calls w @ [GetECDHSharingKeychain]"
  by (auto simp: acceptShare_keys_run Let_def split: sum.splits if_splits)

lemma acceptShare_prepare_issued:
  assumes "acceptShare_prepare E params w = (r, w1)"
  shows "\<exists>pre. calls w1 = calls w @ pre \<and> filter mutating pre = []"
proof -
  have k: "\<exists>pre. calls w1 = calls w @ pre \<and> filter mutating pre = []"
    if "acceptShare_keys E params ws (w\<lparr>calls := calls w @ [HttpGet (share_url params)]\<rparr>) = (r, w1)"
    for ws
    using acceptShare_keys_issued [OF that] by auto
  show ?thesis
    using assms k by (auto simp: acceptShare_prepare_run split: option.splits sum.splits)
qed


lemmas sample_defs = sample_env_def sample_validateParams_def sample_share_def w0_def

lemma postBody_state: "field (acceptShare_postBody enc) ''state'' = JStr ''accepted''"
  by (simp add: acceptShare_postBody_def Let_def)

lemma postBody_cases:
  "acceptShare_postBody enc =
     (if truthy enc then JObj [(''state'', JStr ''accepted''), (''encryptedXprv'', enc)]
      else JObj [(''state'', JStr ''accepted'')])"
  by (simp add: acceptShare_postBody_def Let_def)

lemma acceptShare_issued:
  "(\<exists>e. fst (acceptShare E params w) = Inl e) \<and>
     filter mutating (issued w (snd (acceptShare E params w))) = [] \<or>
   (\<exists>pre ws enc w1. acceptShare_prepare E params w = (Inr (ws, enc), w1) \<and>
      filter mutating pre = [] \<and>
      issued w (snd (acceptShare E params w))
        = pre @ [HttpPost (share_url params) (acceptShare_postBody enc)])"
proof (cases "validateParams E (js_or params (JObj [])) [''walletShareId''] []")
  case (Some e)
  then show ?thesis by (simp add: acceptShare_run)
next
  case None
  obtain r w1 where run: "acceptShare_prepare E params w = (r, w1)"
    by (cases "acceptShare_prepare E params w")
  from acceptShare_prepare_issued [OF run]
  obtain pre where pre: "calls w1 = calls w @ pre" "filter mutating pre = []"
    by blast
  show ?thesis
  proof (cases r)
    case (Inl e)
    with None run pre show ?thesis
      by (simp add: acceptShare_run issued_def)
  next
    case (Inr v)
    obtain ws enc where v: "v = (ws, enc)" by (cases v)
    with Inr None run pre show ?thesis
      by (simp add: acceptShare_run issued_def)
  qed
qed

lemma acceptShare_after_fetch:
  assumes "share_fetched E params w ws"
  shows "acceptShare E params w =
           (case acceptShare_keys E params ws (w\<lparr>calls := calls w @ [HttpGet (share_url params)]\<rparr>) of
              (Inl e, w1) \<Rightarrow> (Inl e, w1)
            | (Inr (ws', enc), w1) \<Rightarrow>
                (remote E (calls w1) (HttpPost (share_url params) (acceptShare_postBody enc)),
                 w1\<lparr>calls := calls w1 @ [HttpPost (share_url params) (acceptShare_postBody enc)]\<rparr>))"
  using assms by (simp add: share_fetched_def acceptShare_run acceptShare_prepare_run)

lemma field_get_prop: "field v f = JStr s \<Longrightarrow> get_prop v f = Inr (JStr s)"
  by (cases v) (simp_all add: get_prop_def)



lemma singleton_list: "distinct xs \<Longrightarrow> set xs = {v} \<Longrightarrow> xs = [v]"
proof (cases xs)
  case Nil
  assume "set xs = {v}"
  with Nil show ?thesis by simp
next
  case (Cons a as)
  assume d: "distinct xs" and s: "set xs = {v}"
  from s Cons have a: "a = v" by auto
  from d s Cons a have "as = []" by (cases as) auto
  with Cons a show ?thesis by simp
qed

lemma view_only_set: "view_only ps \<Longrightarrow> set ps = {''view''}"
  by (cases ps) (auto simp: view_only_def)

text \<open>
  C2 says that accepting a share with permissions \<^verbatim>\<open>spend,view\<close> without a password issues
  no network call. The permissions are known only from the share record, so the fetch of
  the share has been issued when the password is found missing.
\<close>

theorem acceptShare_missing_password_counterexample:
  "field (sample_share (JStr ''spend-share'')) ''permissions'' = JStr ''spend,view''
   \<and> field no_password_params ''userPassword'' = JUndefined
   \<and> fst (acceptShare sample_env no_password_params w0)
       = Inl (Error ''userPassword param must be provided to decrypt shared key'')
   \<and> issued w0 (snd (acceptShare sample_env no_password_params w0))
       = [HttpGet (PathWith ''/walletshare/'' (JStr ''spend-share''))]
   \<and> issued w0 (snd (acceptShare sample_env no_password_params w0)) \<noteq> []"
  by (simp add: acceptShare_run acceptShare_prepare_run acceptShare_keys_run
      no_password_params_def sample_defs share_url_def get_prop_def view_only_def issued_def)

text \<open>
  C2, amended. For a fetched share whose permissions are not exactly the view capability,
  \<^verbatim>\<open>acceptShare\<close> without a \<^verbatim>\<open>userPassword\<close> fails with the error
  \<^verbatim>\<open>userPassword param must be provided to decrypt shared key\<close>; the only call issued is the
  fetch of the share: the sharing keychain is not requested and nothing is submitted.
\<close>

theorem acceptShare_missing_password:
  assumes "share_fetched E params w walletShare"
      and "field walletShare ''permissions'' = JStr perms"
      and "set (split_on CHR '','' perms) \<noteq> {''view''}"
      and "\<not> truthy (field params ''userPassword'')"
  shows "acceptShare E params w =
           (Inl (Error ''userPassword param must be provided to decrypt shared key''),
            w\<lparr>calls := calls w @ [HttpGet (share_url params)]\<rparr>)"
proof -
  from assms(3) have "\<not> view_only (split_on CHR '','' perms)"
    using view_only_set by blast
  with assms(2,4) show ?thesis
    by (simp add: acceptShare_after_fetch [OF assms(1)] acceptShare_keys_run
        field_get_prop)
qed

theorem acceptShare_missing_password_witness:
  "acceptShare sample_env no_password_params w0 =
     (Inl (Error ''userPassword param must be provided to decrypt shared key''),
      w0\<lparr>calls := [HttpGet (PathWith ''/walletshare/'' (JStr ''spend-share''))]\<rparr>)"
  using acceptShare_missing_password [of sample_env no_password_params w0
      "sample_share (JStr ''spend-share'')" "''spend,view''"]
  by (simp add: share_fetched_def no_password_params_def sample_defs share_url_def)

text \<open>
  C3. For a fetched share whose permissions, a comma-separated list without repetitions,
  are exactly the view capability, \<^verbatim>\<open>acceptShare\<close> succeeds with the service's answer to
  the finalize submission, whatever the password parameters are. The calls are the fetch
  and the submission; the payload is \<^verbatim>\<open>{state: 'accepted'}\<close> and nothing else; no
  randomness is drawn, and the run is the same with any other cipher, key derivation and
  key generator: they are not consulted.
\<close>

theorem acceptShare_view_only:
  assumes "share_fetched E params w walletShare"
      and "field walletShare ''permissions'' = JStr perms"
      and "distinct (split_on CHR '','' perms)"
      and "set (split_on CHR '','' perms) = {''view''}"
      and "remote E (calls w @ [HttpGet (share_url params)])
             (HttpPost (share_url params) (JObj [(''state'', JStr ''accepted'')])) = Inr res"
  shows "acceptShare E params w =
           (Inr res,
            w\<lparr>calls := calls w @ [HttpGet (share_url params),
                                  HttpPost (share_url params)
                                    (JObj [(''state'', JStr ''accepted'')])]\<rparr>)
         \<and> (\<forall>E'. validateParams E' = validateParams E \<and> remote E' = remote E \<longrightarrow>
                acceptShare E' params w = acceptShare E params w)"
proof -
  from assms(3,4) have "split_on CHR '','' perms = [''view'']"
    by (rule singleton_list)
  then have v: "view_only (split_on CHR '','' perms)"
    by (simp add: view_only_def)
  have run: "acceptShare E' params w =
           (Inr res,
            w\<lparr>calls := calls w @ [HttpGet (share_url params),
                                  HttpPost (share_url params)
                                    (JObj [(''state'', JStr ''accepted'')])]\<rparr>)"
    if "validateParams E' = validateParams E" "remote E' = remote E" for E'
  proof -
    from that assms(1) have f: "share_fetched E' params w walletShare"
      by (simp add: share_fetched_def)
    from v assms(2,5) that(2) show ?thesis
      by (simp add: acceptShare_after_fetch [OF f] acceptShare_keys_run
          field_get_prop postBody_cases)
  qed
  from run [of E] have "acceptShare E params w =
           (Inr res,
            w\<lparr>calls := calls w @ [HttpGet (share_url params),
                                  HttpPost (share_url params)
                                    (JObj [(''state'', JStr ''accepted'')])]\<rparr>)"
    by simp
  with run show ?thesis by simp
qed

theorem acceptShare_view_only_witness:
  "acceptShare sample_env view_params w0 =
     (Inr (JObj [(''state'', JStr ''accepted'')]),
      w0\<lparr>calls := [HttpGet (PathWith ''/walletshare/'' (JStr ''view-share'')),
                    HttpPost (PathWith ''/walletshare/'' (JStr ''view-share''))
                      (JObj [(''state'', JStr ''accepted'')])]\<rparr>)"
  using acceptShare_view_only [of sample_env view_params w0
      "sample_share (JStr ''view-share'')" "''view''" "JObj [(''state'', JStr ''accepted'')]"]
  by (simp add: share_fetched_def view_params_def sample_defs share_url_def)


text \<open>
  C8. When a share that is not view-only has been fetched, the password is there, the
  sharing keychain has been fetched and the shared wallet xprv has been recovered, the
  cipher is called on the recovered xprv with \<^verbatim>\<open>newWalletPassphrase\<close> when that is given
  (truthy) and with \<^verbatim>\<open>userPassword\<close> otherwise, and the blob it returns is the
  \<^verbatim>\<open>encryptedXprv\<close> of the payload submitted.
\<close>

theorem acceptShare_reencrypts:
  assumes "share_fetched E params w walletShare"
      and "field walletShare ''permissions'' = JStr perms"
      and "set (split_on CHR '','' perms) \<noteq> {''view''}"
      and "truthy (field params ''userPassword'')"
      and "remote E (calls w @ [HttpGet (share_url params)]) GetECDHSharingKeychain
             = Inr sharingKeychain"
      and "decryptSharedWalletXprv E params walletShare sharingKeychain = Inr xprv"
      and "encrypt E (rand w)
             (if truthy (field params ''newWalletPassphrase'')
              then field params ''newWalletPassphrase''
              else field params ''userPassword'') xprv = Inr blob"
      and "truthy blob"
  shows "acceptShare E params w =
           (remote E (calls w @ [HttpGet (share_url params), GetECDHSharingKeychain])
              (HttpPost (share_url params)
                 (JObj [(''state'', JStr ''accepted''), (''encryptedXprv'', blob)])),
            w\<lparr>calls := calls w @ [HttpGet (share_url params), GetECDHSharingKeychain,
                                  HttpPost (share_url params)
                                    (JObj [(''state'', JStr ''accepted''),
                                           (''encryptedXprv'', blob)])],
              rand := Suc (rand w)\<rparr>)"
proof -
  from assms(3) have "\<not> view_only (split_on CHR '','' perms)"
    using view_only_set by blast
  with assms(2,4,5,6,7,8) show ?thesis
    by (simp add: acceptShare_after_fetch [OF assms(1)] acceptShare_keys_run
        field_get_prop postBody_cases js_or_def)
qed

theorem acceptShare_reencrypts_witness:
  "acceptShare sample_env spend_params w0 =
     (Inr (JObj [(''state'', JStr ''accepted''),
                 (''encryptedXprv'', JStr ''correct horse|xprv-wallet'')]),
      \<lparr>calls = [HttpGet (PathWith ''/walletshare/'' (JStr ''spend-share'')),
                GetECDHSharingKeychain,
                HttpPost (PathWith ''/walletshare/'' (JStr ''spend-share''))
                  (JObj [(''state'', JStr ''accepted''),
                         (''encryptedXprv'', JStr ''correct horse|xprv-wallet'')])],
       rand = 1\<rparr>)"
proof -
  have h1: "share_fetched sample_env spend_params w0 (sample_share (JStr ''spend-share''))"
    by (simp add: share_fetched_def share_url_def spend_params_def sample_defs)
  have h2: "field (sample_share (JStr ''spend-share'')) ''permissions'' = JStr ''spend,view''"
    by (simp add: sample_defs)
  have h3: "set (split_on CHR '','' ''spend,view'') \<noteq> {''view''}"
    by simp
  have h4: "truthy (field spend_params ''userPassword'')"
    by (simp add: spend_params_def)
  have h5: "remote sample_env (calls w0 @ [HttpGet (share_url spend_params)])
              GetECDHSharingKeychain
            = Inr (JObj [(''xpub'', JStr ''xpub-ecdh''), (''encryptedXprv'', JStr ''hunter2|k'')])"
    by (simp add: sample_defs)
  have h6: "decryptSharedWalletXprv sample_env spend_params (sample_share (JStr ''spend-share''))
              (JObj [(''xpub'', JStr ''xpub-ecdh''), (''encryptedXprv'', JStr ''hunter2|k'')])
            = Inr (JStr ''xprv-wallet'')"
    by (simp add: decryptSharedWalletXprv_def bindE_def get_prop_def spend_params_def
        sample_defs)
  have h7: "encrypt sample_env (rand w0)
              (if truthy (field spend_params ''newWalletPassphrase'')
               then field spend_params ''newWalletPassphrase''
               else field spend_params ''userPassword'') (JStr ''xprv-wallet'')
            = Inr (JStr ''correct horse|xprv-wallet'')"
    by (simp add: spend_params_def sample_defs)
  have h8: "truthy (JStr ''correct horse|xprv-wallet'')"
    by simp
  from acceptShare_reencrypts [OF h1 h2 h3 h4 h5 h6 h7 h8]
  show ?thesis
    by (simp add: share_url_def spend_params_def w0_def sample_env_def)
qed

lemma acceptShare_prepare_Inr:
  assumes "acceptShare_prepare E params w = (Inr (ws, enc), w1)"
  shows "\<exists>perms. js_split (field ws ''permissions'') = Inr perms \<and>
           (view_only perms \<longrightarrow> enc = JUndefined) \<and>
           (\<not> view_only perms \<longrightarrow>
              (\<exists>x. encrypt E (rand w)
                     (js_or (field params ''newWalletPassphrase'')
                            (field params ''userPassword'')) x = Inr enc))"
  using assms
  by (auto simp: acceptShare_prepare_run acceptShare_keys_run get_prop_def Let_def
      split: option.splits sum.splits if_splits)

text \<open>
  C10. Every POST that \<^verbatim>\<open>acceptShare\<close> issues goes to the share's URL with a payload whose
  \<^verbatim>\<open>state\<close> is \<^verbatim>\<open>accepted\<close>. With a cipher whose blobs are truthy (non-empty strings), the
  payload has an \<^verbatim>\<open>encryptedXprv\<close> exactly when the share was not view-only, that is when
  the key-transfer branch ran; the field is then the blob the cipher returned there, and
  the payload has no other field.
\<close>

theorem acceptShare_finalize_payload:
  assumes "HttpPost u b \<in> set (issued w (snd (acceptShare E params w)))"
      and "\<forall>i pw x c. encrypt E i pw x = Inr c \<longrightarrow> truthy c"
  shows "u = share_url params \<and> field b ''state'' = JStr ''accepted'' \<and>
         (\<exists>walletShare enc w1 perms.
            acceptShare_prepare E params w = (Inr (walletShare, enc), w1) \<and>
            js_split (field walletShare ''permissions'') = Inr perms \<and>
            (''encryptedXprv'' \<in> set (keys b)) = (\<not> view_only perms) \<and>
            (view_only perms \<longrightarrow> b = JObj [(''state'', JStr ''accepted'')]) \<and>
            (\<not> view_only perms \<longrightarrow>
               (\<exists>x. encrypt E (rand w)
                      (js_or (field params ''newWalletPassphrase'')
                             (field params ''userPassword'')) x = Inr enc) \<and>
               b = JObj [(''state'', JStr ''accepted''), (''encryptedXprv'', enc)]))"
proof -
  from acceptShare_issued [of E params w] assms(1)
  obtain pre ws enc w1 where run: "acceptShare_prepare E params w = (Inr (ws, enc), w1)"
    and pre: "filter mutating pre = []"
    and iss: "issued w (snd (acceptShare E params w))
                = pre @ [HttpPost (share_url params) (acceptShare_postBody enc)]"
    by (auto simp: filter_empty_conv)
  from assms(1) iss pre have "HttpPost u b = HttpPost (share_url params) (acceptShare_postBody enc)"
    by (auto simp: filter_empty_conv)
  then have u: "u = share_url params" and b: "b = acceptShare_postBody enc"
    by simp_all
  from acceptShare_prepare_Inr [OF run]
  obtain perms where p: "js_split (field ws ''permissions'') = Inr perms"
    and v: "view_only perms \<longrightarrow> enc = JUndefined"
    and k: "\<not> view_only perms \<longrightarrow>
              (\<exists>x. encrypt E (rand w)
                     (js_or (field params ''newWalletPassphrase'')
                            (field params ''userPassword'')) x = Inr enc)"
    by blast
  from k assms(2) have t: "\<not> view_only perms \<longrightarrow> truthy enc"
    by blast
  from v t have "(''encryptedXprv'' \<in> set (keys b)) = (\<not> view_only perms)"
    by (auto simp: b postBody_cases)
  with u b run p v k t show ?thesis
    by (auto simp: postBody_cases)
qed


lemma sample_blobs_truthy: "encrypt sample_env i pw x = Inr c \<Longrightarrow> truthy c"
  by (cases pw; cases x) (auto simp: sample_env_def)

theorem acceptShare_finalize_payload_witness:
  "HttpPost (share_url spend_params)
     (JObj [(''state'', JStr ''accepted''),
            (''encryptedXprv'', JStr ''correct horse|xprv-wallet'')])
     \<in> set (issued w0 (snd (acceptShare sample_env spend_params w0)))
   \<and> (\<exists>walletShare enc w1 perms.
         acceptShare_prepare sample_env spend_params w0 = (Inr (walletShare, enc), w1) \<and>
         js_split (field walletShare ''permissions'') = Inr perms \<and>
         \<not> view_only perms \<and>
         JObj [(''state'', JStr ''accepted''),
               (''encryptedXprv'', JStr ''correct horse|xprv-wallet'')]
           = JObj [(''state'', JStr ''accepted''), (''encryptedXprv'', enc)])"
proof -
  have h1: "HttpPost (share_url spend_params)
              (JObj [(''state'', JStr ''accepted''),
                     (''encryptedXprv'', JStr ''correct horse|xprv-wallet'')])
            \<in> set (issued w0 (snd (acceptShare sample_env spend_params w0)))"
    by (simp add: acceptShare_run acceptShare_prepare_run acceptShare_keys_run
        decryptSharedWalletXprv_def bindE_def postBody_cases js_or_def
        spend_params_def sample_defs share_url_def get_prop_def view_only_def issued_def)
  have h2: "\<forall>i pw x c. encrypt sample_env i pw x = Inr c \<longrightarrow> truthy c"
    using sample_blobs_truthy by blast
  from acceptShare_finalize_payload [OF h1 h2] h1 show ?thesis
    by auto
qed

section \<open>createWalletWithKeychains\<close>

lemma create_walletParams_fields:
  "field (create_walletParams p ux bx sx) ''m'' = JNum 2"
  "field (create_walletParams p ux bx sx) ''n'' = JNum 3"
  "field (create_walletParams p ux bx sx) ''keychains''
     = JArr [JObj [(''xpub'', ux)], JObj [(''xpub'', bx)], JObj [(''xpub'', sx)]]"
  by (simp_all add: create_walletParams_def Let_def)

lemma add_walletParams_create:
  "add_walletParams (create_walletParams p ux bx sx)
     [JObj [(''xpub'', ux)], JObj [(''xpub'', bx)], JObj [(''xpub'', sx)]]
   = create_walletParams p ux bx sx"
  by (simp add: create_walletParams_def add_walletParams_def Let_def)

text \<open>The call of \<^verbatim>\<open>add\<close> at the end of the chain.\<close>

lemma add_create_walletParams:
  "add E (create_walletParams p ux bx sx) w =
     (case validateParams E (create_walletParams p ux bx sx) [] [''label'', ''enterprise''] of
        Some e \<Rightarrow> (Inl e, w)
      | None \<Rightarrow>
        (case remote E (calls w) (HttpPost (Path ''/wallet'') (create_walletParams p ux bx sx)) of
           Inl e \<Rightarrow> (Inl e, w\<lparr>calls := calls w @
                                [HttpPost (Path ''/wallet'') (create_walletParams p ux bx sx)]\<rparr>)
         | Inr body \<Rightarrow> (Inr (new_Wallet E body),
                        w\<lparr>calls := calls w @
                                [HttpPost (Path ''/wallet'') (create_walletParams p ux bx sx)]\<rparr>)))"
proof -
  have o: "js_or (create_walletParams p ux bx sx) (JObj []) = create_walletParams p ux bx sx"
    using js_or_field [of "create_walletParams p ux bx sx" "''m''"]
    by (simp add: create_walletParams_fields)
  show ?thesis
    by (simp add: add_def o create_walletParams_fields add_walletParams_create get_prop_def
        io_defs Let_def split: option.splits sum.splits)
qed


text \<open>The chain, call by call.\<close>

lemma chain_run:
  "createWalletWithKeychains_chain E p u b w =
     (let a1 = KeychainsAdd (key1Params u);
          a2 = KeychainsAdd (key2Params b) in
      case remote E (calls w) a1 of
        Inl e \<Rightarrow> (Inl e, w\<lparr>calls := calls w @ [a1]\<rparr>)
      | Inr r1 \<Rightarrow>
      (case remote E (calls w @ [a1]) a2 of
        Inl e \<Rightarrow> (Inl e, w\<lparr>calls := calls w @ [a1, a2]\<rparr>)
      | Inr r2 \<Rightarrow>
      (case remote E (calls w @ [a1, a2]) KeychainsCreateBitGo of
        Inl e \<Rightarrow> (Inl e, w\<lparr>calls := calls w @ [a1, a2, KeychainsCreateBitGo]\<rparr>)
      | Inr bitgo \<Rightarrow>
      (case get_prop bitgo ''xpub'' of
        Inl e \<Rightarrow> (Inl e, w\<lparr>calls := calls w @ [a1, a2, KeychainsCreateBitGo]\<rparr>)
      | Inr sx \<Rightarrow>
      (let wp = create_walletParams p (field u ''xpub'') (field b ''xpub'') sx in
       case validateParams E wp [] [''label'', ''enterprise''] of
        Some e \<Rightarrow> (Inl e, w\<lparr>calls := calls w @ [a1, a2, KeychainsCreateBitGo]\<rparr>)
      | None \<Rightarrow>
      (case remote E (calls w @ [a1, a2, KeychainsCreateBitGo]) (HttpPost (Path ''/wallet'') wp) of
        Inl e \<Rightarrow> (Inl e, w\<lparr>calls := calls w @ [a1, a2, KeychainsCreateBitGo,
                                                 HttpPost (Path ''/wallet'') wp]\<rparr>)
      | Inr body \<Rightarrow>
          (Inr (JObj [(''wallet'', new_Wallet E body),
                      (''userKeychain'', u),
                      (''backupKeychain'', b),
                      (''bitgoKeychain'', bitgo),
                      (''warning'',
                       JStr ''Be sure to backup the backup keychain -- it is not stored anywhere else!'')]),
           w\<lparr>calls := calls w @ [a1, a2, KeychainsCreateBitGo,
                                  HttpPost (Path ''/wallet'') wp]\<rparr>)))))))"
  by (simp add: createWalletWithKeychains_chain_def add_create_walletParams io_defs Let_def
      split: option.splits sum.splits)

text \<open>The keys made locally: the user keychain with its blob, and the backup keychain.\<close>

lemma createWallet_run:
  assumes "keychains_create E (rand w) = (upub, uprv)"
      and "keychains_create E (Suc (Suc (rand w))) = (bpub, bprv)"
  shows "createWalletWithKeychains E params w =
     (case validateParams E (js_or params (JObj [])) [''passphrase'']
             [''label'', ''backupXpub'', ''enterprise''] of
        Some e \<Rightarrow> (Inl e, w)
      | None \<Rightarrow>
      (case encrypt E (Suc (rand w)) (field params ''passphrase'') (JStr uprv) of
        Inl e \<Rightarrow> (Inl e, w\<lparr>rand := Suc (Suc (rand w))\<rparr>)
      | Inr enc \<Rightarrow>
          createWalletWithKeychains_chain E (js_or params (JObj []))
            (JObj [(''xpub'', JStr upub), (''xprv'', JStr uprv), (''encryptedXprv'', enc)])
            (if \<not> truthy (field params ''backupXpub'')
             then JObj [(''xpub'', JStr bpub), (''xprv'', JStr bprv)]
             else JObj [(''xpub'', field params ''backupXpub'')])
            (w\<lparr>rand := (if \<not> truthy (field params ''backupXpub'')
                          then Suc (Suc (Suc (rand w))) else Suc (Suc (rand w)))\<rparr>)))"
  using assms
  by (simp add: createWalletWithKeychains_def io_defs Let_def
      split: option.splits sum.splits)


lemma create_walletParams_js_or [simp]:
  "create_walletParams (js_or p (JObj [])) = create_walletParams p"
  by (intro ext) (simp add: create_walletParams_def cong: if_cong)

lemma chain_js_or [simp]:
  "createWalletWithKeychains_chain E (js_or p (JObj [])) = createWalletWithKeychains_chain E p"
  by (intro ext) (simp add: createWalletWithKeychains_chain_def)


lemma split_at_call:
  "(pre @ c # post = [x1]) = (pre = [] \<and> c = x1 \<and> post = [])"
  "(pre @ c # post = [x1, x2]) =
     (pre = [] \<and> c = x1 \<and> post = [x2] \<or> pre = [x1] \<and> c = x2 \<and> post = [])"
  "(pre @ c # post = [x1, x2, x3]) =
     (pre = [] \<and> c = x1 \<and> post = [x2, x3] \<or> pre = [x1] \<and> c = x2 \<and> post = [x3] \<or>
      pre = [x1, x2] \<and> c = x3 \<and> post = [])"
  "(pre @ c # post = [x1, x2, x3, x4]) =
     (pre = [] \<and> c = x1 \<and> post = [x2, x3, x4] \<or> pre = [x1] \<and> c = x2 \<and> post = [x3, x4] \<or>
      pre = [x1, x2] \<and> c = x3 \<and> post = [x4] \<or> pre = [x1, x2, x3] \<and> c = x4 \<and> post = [])"
  by (auto simp: append_eq_Cons_conv)

text \<open>The five ways the chain can end.\<close>

lemma chain_cases:
  assumes run: "createWalletWithKeychains_chain E p u b w = (r, w')"
  obtains
    (user_failed) e where
      "remote E (calls w) (KeychainsAdd (key1Params u)) = Inl e"
      "r = Inl e" "issued w w' = [KeychainsAdd (key1Params u)]"
  | (backup_failed) e r1 where
      "remote E (calls w) (KeychainsAdd (key1Params u)) = Inr r1"
      "remote E (calls w @ [KeychainsAdd (key1Params u)]) (KeychainsAdd (key2Params b)) = Inl e"
      "r = Inl e" "issued w w' = [KeychainsAdd (key1Params u), KeychainsAdd (key2Params b)]"
  | (bitgo_failed) e r1 r2 where
      "remote E (calls w) (KeychainsAdd (key1Params u)) = Inr r1"
      "remote E (calls w @ [KeychainsAdd (key1Params u)]) (KeychainsAdd (key2Params b)) = Inr r2"
      "remote E (calls w @ [KeychainsAdd (key1Params u), KeychainsAdd (key2Params b)])
         KeychainsCreateBitGo = Inl e"
      "r = Inl e"
      "issued w w' = [KeychainsAdd (key1Params u), KeychainsAdd (key2Params b),
                      KeychainsCreateBitGo]"
  | (local_failed) e r1 r2 r3 where
      "remote E (calls w) (KeychainsAdd (key1Params u)) = Inr r1"
      "remote E (calls w @ [KeychainsAdd (key1Params u)]) (KeychainsAdd (key2Params b)) = Inr r2"
      "remote E (calls w @ [KeychainsAdd (key1Params u), KeychainsAdd (key2Params b)])
         KeychainsCreateBitGo = Inr r3"
      "r = Inl e"
      "issued w w' = [KeychainsAdd (key1Params u), KeychainsAdd (key2Params b),
                      KeychainsCreateBitGo]"
  | (posted) r1 r2 r3 where
      "remote E (calls w) (KeychainsAdd (key1Params u)) = Inr r1"
      "remote E (calls w @ [KeychainsAdd (key1Params u)]) (KeychainsAdd (key2Params b)) = Inr r2"
      "remote E (calls w @ [KeychainsAdd (key1Params u), KeychainsAdd (key2Params b)])
         KeychainsCreateBitGo = Inr r3"
      "issued w w' = [KeychainsAdd (key1Params u), KeychainsAdd (key2Params b),
                      KeychainsCreateBitGo,
                      HttpPost (Path ''/wallet'')
                        (create_walletParams p (field u ''xpub'') (field b ''xpub'')
                           (field r3 ''xpub''))]"
      "r = (case remote E (calls w @ [KeychainsAdd (key1Params u), KeychainsAdd (key2Params b),
                                     KeychainsCreateBitGo])
                  (HttpPost (Path ''/wallet'')
                     (create_walletParams p (field u ''xpub'') (field b ''xpub'')
                        (field r3 ''xpub''))) of
              Inl e \<Rightarrow> Inl e
            | Inr body \<Rightarrow>
                Inr (JObj [(''wallet'', new_Wallet E body),
                           (''userKeychain'', u),
                           (''backupKeychain'', b),
                           (''bitgoKeychain'', r3),
                           (''warning'',
                            JStr ''Be sure to backup the backup keychain -- it is not stored anywhere else!'')]))"
proof (cases "remote E (calls w) (KeychainsAdd (key1Params u))")
  case (Inl e)
  with run have "r = Inl e" "issued w w' = [KeychainsAdd (key1Params u)]"
    by (auto simp: chain_run Let_def)
  with Inl show ?thesis by (rule user_failed)
next
  case r1: (Inr r1)
  show ?thesis
  proof (cases "remote E (calls w @ [KeychainsAdd (key1Params u)]) (KeychainsAdd (key2Params b))")
    case (Inl e)
    with run r1 have "r = Inl e"
      "issued w w' = [KeychainsAdd (key1Params u), KeychainsAdd (key2Params b)]"
      by (auto simp: chain_run Let_def)
    with r1 Inl show ?thesis by (rule backup_failed)
  next
    case r2: (Inr r2)
    show ?thesis
    proof (cases "remote E (calls w @ [KeychainsAdd (key1Params u), KeychainsAdd (key2Params b)])
                    KeychainsCreateBitGo")
      case (Inl e)
      with run r1 r2 have "r = Inl e"
        "issued w w' = [KeychainsAdd (key1Params u), KeychainsAdd (key2Params b),
                        KeychainsCreateBitGo]"
        by (auto simp: chain_run Let_def)
      with r1 r2 Inl show ?thesis by (rule bitgo_failed)
    next
      case r3: (Inr r3)
      let ?wp = "create_walletParams p (field u ''xpub'') (field b ''xpub'') (field r3 ''xpub'')"
      show ?thesis
      proof (cases "nullish r3")
        case True
        with run r1 r2 r3 have "r = Inl (TypeError ''xpub'')"
          "issued w w' = [KeychainsAdd (key1Params u), KeychainsAdd (key2Params b),
                          KeychainsCreateBitGo]"
          by (auto simp: chain_run get_prop_def Let_def)
        with r1 r2 r3 show ?thesis by (rule local_failed)
      next
        case nn: False
        show ?thesis
        proof (cases "validateParams E ?wp [] [''label'', ''enterprise'']")
          case (Some e)
          with run r1 r2 r3 nn have "r = Inl e"
            "issued w w' = [KeychainsAdd (key1Params u), KeychainsAdd (key2Params b),
                            KeychainsCreateBitGo]"
            by (auto simp: chain_run get_prop_def Let_def)
          with r1 r2 r3 show ?thesis by (rule local_failed)
        next
          case None
          with run r1 r2 r3 nn have
            "issued w w' = [KeychainsAdd (key1Params u), KeychainsAdd (key2Params b),
                            KeychainsCreateBitGo, HttpPost (Path ''/wallet'') ?wp]"
            and "r = (case remote E (calls w @ [KeychainsAdd (key1Params u),
                                                KeychainsAdd (key2Params b),
                                                KeychainsCreateBitGo])
                             (HttpPost (Path ''/wallet'') ?wp) of
                        Inl e \<Rightarrow> Inl e
                      | Inr body \<Rightarrow>
                          Inr (JObj [(''wallet'', new_Wallet E body),
                                     (''userKeychain'', u),
                                     (''backupKeychain'', b),
                                     (''bitgoKeychain'', r3),
                                     (''warning'',
                                      JStr ''Be sure to backup the backup keychain -- it is not stored anywhere else!'')]))"
            by (auto simp: chain_run get_prop_def Let_def split: sum.splits)
          with r1 r2 r3 show ?thesis by (rule posted)
        qed
      qed
    qed
  qed
qed


lemma chain_post:
  assumes run: "createWalletWithKeychains_chain E p u b w = (r, w')"
      and post: "HttpPost l body \<in> set (issued w w')"
  shows "\<exists>r1 r2 r3.
           issued w w' = [KeychainsAdd (key1Params u), KeychainsAdd (key2Params b),
                          KeychainsCreateBitGo, HttpPost (Path ''/wallet'') body] \<and>
           remote E (calls w) (KeychainsAdd (key1Params u)) = Inr r1 \<and>
           remote E (calls w @ [KeychainsAdd (key1Params u)]) (KeychainsAdd (key2Params b))
             = Inr r2 \<and>
           remote E (calls w @ [KeychainsAdd (key1Params u), KeychainsAdd (key2Params b)])
             KeychainsCreateBitGo = Inr r3 \<and>
           body = create_walletParams p (field u ''xpub'') (field b ''xpub'') (field r3 ''xpub'')"
  using run
proof (cases rule: chain_cases)
  case (posted r1 r2 r3)
  with post show ?thesis by simp
qed (use post in simp_all)

lemma chain_failed_call:
  assumes run: "createWalletWithKeychains_chain E p u b w = (r, w')"
      and split: "issued w w' = pre @ c # post"
      and failed: "remote E (calls w @ pre) c = Inl e"
  shows "post = [] \<and> r = Inl e"
  using run
proof (cases rule: chain_cases)
  case (user_failed e')
  from split user_failed(3) have "pre @ c # post = [KeychainsAdd (key1Params u)]"
    by simp
  from this [unfolded split_at_call] failed user_failed show ?thesis
    by auto
next
  case (backup_failed e' r1)
  from split backup_failed(4)
  have "pre @ c # post = [KeychainsAdd (key1Params u), KeychainsAdd (key2Params b)]"
    by simp
  from this [unfolded split_at_call] failed backup_failed show ?thesis
    by auto
next
  case (bitgo_failed e' r1 r2)
  from split bitgo_failed(5)
  have "pre @ c # post = [KeychainsAdd (key1Params u), KeychainsAdd (key2Params b),
                          KeychainsCreateBitGo]"
    by simp
  from this [unfolded split_at_call] failed bitgo_failed show ?thesis
    by auto
next
  case (local_failed e' r1 r2 r3)
  from split local_failed(5)
  have "pre @ c # post = [KeychainsAdd (key1Params u), KeychainsAdd (key2Params b),
                          KeychainsCreateBitGo]"
    by simp
  from this [unfolded split_at_call] failed local_failed show ?thesis
    by auto
next
  case (posted r1 r2 r3)
  from split posted(4)
  have "pre @ c # post = [KeychainsAdd (key1Params u), KeychainsAdd (key2Params b),
                          KeychainsCreateBitGo,
                          HttpPost (Path ''/wallet'')
                            (create_walletParams p (field u ''xpub'') (field b ''xpub'')
                               (field r3 ''xpub''))]"
    by simp
  from this [unfolded split_at_call] failed posted show ?thesis
    by auto
qed

lemma chain_result:
  assumes run: "createWalletWithKeychains_chain E p u b w = (Inr res, w')"
  shows "field res ''userKeychain'' = u \<and> field res ''backupKeychain'' = b \<and>
         (\<exists>body. HttpPost (Path ''/wallet'') body \<in> set (issued w w'))"
  using run
proof (cases rule: chain_cases)
  case (posted r1 r2 r3)
  then show ?thesis
    by (auto split: sum.splits)
qed simp_all

lemma chain_first_calls:
  assumes run: "createWalletWithKeychains_chain E p u b w = (r, w')"
  shows "\<exists>cs. issued w w' = KeychainsAdd (key1Params u) # cs \<and>
              (cs = [] \<or> (\<exists>cs'. cs = KeychainsAdd (key2Params b) # cs'))"
  using run by (cases rule: chain_cases) simp_all

lemma issued_same_calls: "calls w1 = calls w \<Longrightarrow> issued w1 w' = issued w w'"
  by (simp add: issued_def)

text \<open>
  A run of \<^verbatim>\<open>createWalletWithKeychains\<close> either ends before any call, or is a run of the
  chain on the keychains made locally.
\<close>

lemma createWallet_cases:
  assumes run: "createWalletWithKeychains E params w = (r, w')"
      and kc: "keychains_create E (rand w) = (upub, uprv)"
      and kb: "keychains_create E (Suc (Suc (rand w))) = (bpub, bprv)"
  shows "(\<exists>e. r = Inl e) \<and> issued w w' = [] \<or>
         (\<exists>enc w1.
            encrypt E (Suc (rand w)) (field params ''passphrase'') (JStr uprv) = Inr enc \<and>
            calls w1 = calls w \<and>
            createWalletWithKeychains_chain E params
              (JObj [(''xpub'', JStr upub), (''xprv'', JStr uprv), (''encryptedXprv'', enc)])
              (if \<not> truthy (field params ''backupXpub'')
               then JObj [(''xpub'', JStr bpub), (''xprv'', JStr bprv)]
               else JObj [(''xpub'', field params ''backupXpub'')]) w1 = (r, w'))"
proof (cases "validateParams E (js_or params (JObj [])) [''passphrase'']
                [''label'', ''backupXpub'', ''enterprise'']")
  case (Some e)
  with run have "r = Inl e \<and> w' = w"
    by (simp add: createWallet_run [OF kc kb])
  then show ?thesis by simp
next
  case None
  show ?thesis
  proof (cases "encrypt E (Suc (rand w)) (field params ''passphrase'') (JStr uprv)")
    case (Inl e)
    with run None have "r = Inl e \<and> w' = w\<lparr>rand := Suc (Suc (rand w))\<rparr>"
      by (simp add: createWallet_run [OF kc kb])
    then show ?thesis by simp
  next
    case (Inr enc)
    let ?w1 = "w\<lparr>rand := (if \<not> truthy (field params ''backupXpub'')
                             then Suc (Suc (Suc (rand w))) else Suc (Suc (rand w)))\<rparr>"
    from run None Inr have
      "createWalletWithKeychains_chain E params
         (JObj [(''xpub'', JStr upub), (''xprv'', JStr uprv), (''encryptedXprv'', enc)])
         (if \<not> truthy (field params ''backupXpub'')
          then JObj [(''xpub'', JStr bpub), (''xprv'', JStr bprv)]
          else JObj [(''xpub'', field params ''backupXpub'')]) ?w1 = (r, w')"
      by (simp add: createWallet_run [OF kc kb])
    moreover have "calls ?w1 = calls w" by simp
    ultimately show ?thesis using Inr by blast
  qed
qed



text \<open>
  C5. In every run of \<^verbatim>\<open>createWalletWithKeychains\<close>: when a wallet-creation request is
  issued, the calls issued are exactly the two keychain registrations, the creation of the
  service keychain and then the request, each of the first three was answered with success,
  and the request's keychains are the xpubs of the two keychains registered and of the
  service keychain. A call that the service answers with a failure is the last call issued
  and its error is the error of the operation. The operation succeeds only after the
  wallet-creation request.
\<close>

theorem createWallet_after_keychains:
  assumes run: "createWalletWithKeychains E params w = (r, w')"
  shows "(\<forall>l body. HttpPost l body \<in> set (issued w w') \<longrightarrow>
            (\<exists>k1 k2 r1 r2 r3.
               issued w w' = [KeychainsAdd k1, KeychainsAdd k2, KeychainsCreateBitGo,
                              HttpPost (Path ''/wallet'') body] \<and>
               remote E (calls w) (KeychainsAdd k1) = Inr r1 \<and>
               remote E (calls w @ [KeychainsAdd k1]) (KeychainsAdd k2) = Inr r2 \<and>
               remote E (calls w @ [KeychainsAdd k1, KeychainsAdd k2]) KeychainsCreateBitGo
                 = Inr r3 \<and>
               field body ''keychains'' = JArr [JObj [(''xpub'', field k1 ''xpub'')],
                                                JObj [(''xpub'', field k2 ''xpub'')],
                                                JObj [(''xpub'', field r3 ''xpub'')]]))
       \<and> (\<forall>pre c post e. issued w w' = pre @ c # post \<and> remote E (calls w @ pre) c = Inl e
              \<longrightarrow> post = [] \<and> r = Inl e)
       \<and> (\<forall>res. r = Inr res \<longrightarrow>
              (\<exists>body. HttpPost (Path ''/wallet'') body \<in> set (issued w w')))"
proof -
  obtain upub uprv where kc: "keychains_create E (rand w) = (upub, uprv)"
    by (cases "keychains_create E (rand w)")
  obtain bpub bprv where kb: "keychains_create E (Suc (Suc (rand w))) = (bpub, bprv)"
    by (cases "keychains_create E (Suc (Suc (rand w)))")
  from createWallet_cases [OF run kc kb] show ?thesis
  proof
    assume "(\<exists>e. r = Inl e) \<and> issued w w' = []"
    then show ?thesis by auto
  next
    assume "\<exists>enc w1.
            encrypt E (Suc (rand w)) (field params ''passphrase'') (JStr uprv) = Inr enc \<and>
            calls w1 = calls w \<and>
            createWalletWithKeychains_chain E params
              (JObj [(''xpub'', JStr upub), (''xprv'', JStr uprv), (''encryptedXprv'', enc)])
              (if \<not> truthy (field params ''backupXpub'')
               then JObj [(''xpub'', JStr bpub), (''xprv'', JStr bprv)]
               else JObj [(''xpub'', field params ''backupXpub'')]) w1 = (r, w')"
    then obtain u b w1 where c: "calls w1 = calls w"
      and ch: "createWalletWithKeychains_chain E params u b w1 = (r, w')"
      by blast
    have i: "issued w1 w' = issued w w'"
      using c by (rule issued_same_calls)
    have k: "field (create_walletParams params (field u ''xpub'') (field b ''xpub'') sx)
               ''keychains''
             = JArr [JObj [(''xpub'', field (key1Params u) ''xpub'')],
                     JObj [(''xpub'', field (key2Params b) ''xpub'')],
                     JObj [(''xpub'', sx)]]" for sx
      by (simp add: create_walletParams_fields key1Params_def key2Params_def)
    have a: "\<exists>k1 k2 r1 r2 r3.
               issued w w' = [KeychainsAdd k1, KeychainsAdd k2, KeychainsCreateBitGo,
                              HttpPost (Path ''/wallet'') body] \<and>
               remote E (calls w) (KeychainsAdd k1) = Inr r1 \<and>
               remote E (calls w @ [KeychainsAdd k1]) (KeychainsAdd k2) = Inr r2 \<and>
               remote E (calls w @ [KeychainsAdd k1, KeychainsAdd k2]) KeychainsCreateBitGo
                 = Inr r3 \<and>
               field body ''keychains'' = JArr [JObj [(''xpub'', field k1 ''xpub'')],
                                                JObj [(''xpub'', field k2 ''xpub'')],
                                                JObj [(''xpub'', field r3 ''xpub'')]]"
      if "HttpPost l body \<in> set (issued w w')" for l body
    proof -
      from that have "HttpPost l body \<in> set (issued w1 w')"
        by (simp add: i)
      from chain_post [OF ch this] obtain r1 r2 r3 where
        "issued w w' = [KeychainsAdd (key1Params u), KeychainsAdd (key2Params b),
                        KeychainsCreateBitGo, HttpPost (Path ''/wallet'') body]"
        "remote E (calls w) (KeychainsAdd (key1Params u)) = Inr r1"
        "remote E (calls w @ [KeychainsAdd (key1Params u)]) (KeychainsAdd (key2Params b))
           = Inr r2"
        "remote E (calls w @ [KeychainsAdd (key1Params u), KeychainsAdd (key2Params b)])
           KeychainsCreateBitGo = Inr r3"
        "body = create_walletParams params (field u ''xpub'') (field b ''xpub'')
                  (field r3 ''xpub'')"
        unfolding i c by blast
      then show ?thesis
        using k [of "field r3 ''xpub''"] by blast
    qed
    have b: "post = [] \<and> r = Inl e"
      if "issued w w' = pre @ c # post" "remote E (calls w @ pre) c = Inl e" for pre c post e
      using chain_failed_call [OF ch, of pre c post e] that by (simp add: i c)
    have s: "\<exists>body. HttpPost (Path ''/wallet'') body \<in> set (issued w w')"
      if "r = Inr res" for res
      using chain_result [of E params u b w1 res w'] ch that by (simp add: i)
    from a b s show ?thesis by blast
  qed
qed


text \<open>The sample run of \<^verbatim>\<open>createWalletWithKeychains\<close> with a generated backup key.\<close>

lemma sample_create_run:
  "createWalletWithKeychains sample_env create_params w0 =
     (Inr (JObj [(''wallet'', JObj [(''wallet'', wallet_params
                    [JObj [(''xpub'', JStr ''xpub'')], JObj [(''xpub'', JStr ''xpub++'')],
                     JObj [(''xpub'', JStr ''xpub-bitgo'')]])]),
                 (''userKeychain'', JObj [(''xpub'', JStr ''xpub''), (''xprv'', JStr ''xprv''),
                                          (''encryptedXprv'', JStr ''p@ss|xprv'')]),
                 (''backupKeychain'', JObj [(''xpub'', JStr ''xpub++''),
                                            (''xprv'', JStr ''xprv++'')]),
                 (''bitgoKeychain'', JObj [(''xpub'', JStr ''xpub-bitgo'')]),
                 (''warning'',
                  JStr ''Be sure to backup the backup keychain -- it is not stored anywhere else!'')]),
      \<lparr>calls = [KeychainsAdd (JObj [(''xpub'', JStr ''xpub''),
                                     (''encryptedXprv'', JStr ''p@ss|xprv'')]),
                KeychainsAdd (JObj [(''xpub'', JStr ''xpub++'')]),
                KeychainsCreateBitGo,
                HttpPost (Path ''/wallet'') (wallet_params
                    [JObj [(''xpub'', JStr ''xpub'')], JObj [(''xpub'', JStr ''xpub++'')],
                     JObj [(''xpub'', JStr ''xpub-bitgo'')]])],
       rand = 3\<rparr>)"
proof -
  have kc: "keychains_create sample_env (rand w0) = (''xpub'', ''xprv'')"
    by (simp add: sample_defs)
  have kb: "keychains_create sample_env (Suc (Suc (rand w0))) = (''xpub++'', ''xprv++'')"
    by (simp add: sample_defs)
  show ?thesis
    by (subst createWallet_run [OF kc kb])
      (simp add: chain_run key1Params_def key2Params_def
        create_walletParams_def create_params_def wallet_params_def get_prop_def
        sample_defs Let_def)
qed

theorem createWallet_after_keychains_witness:
  "\<exists>k1 k2 r1 r2 r3.
     issued w0 (snd (createWalletWithKeychains sample_env create_params w0))
       = [KeychainsAdd k1, KeychainsAdd k2, KeychainsCreateBitGo,
          HttpPost (Path ''/wallet'') (wallet_params
            [JObj [(''xpub'', JStr ''xpub'')], JObj [(''xpub'', JStr ''xpub++'')],
             JObj [(''xpub'', JStr ''xpub-bitgo'')]])] \<and>
     remote sample_env (calls w0) (KeychainsAdd k1) = Inr r1 \<and>
     remote sample_env (calls w0 @ [KeychainsAdd k1]) (KeychainsAdd k2) = Inr r2 \<and>
     remote sample_env (calls w0 @ [KeychainsAdd k1, KeychainsAdd k2]) KeychainsCreateBitGo
       = Inr r3"
proof -
  have "HttpPost (Path ''/wallet'') (wallet_params
            [JObj [(''xpub'', JStr ''xpub'')], JObj [(''xpub'', JStr ''xpub++'')],
             JObj [(''xpub'', JStr ''xpub-bitgo'')]])
        \<in> set (issued w0 (snd (createWalletWithKeychains sample_env create_params w0)))"
    unfolding sample_create_run by (simp add: issued_def w0_def)
  with createWallet_after_keychains [where E = sample_env and params = create_params
      and w = w0, OF prod.collapse [symmetric]]
  show ?thesis by blast
qed


text \<open>
  C7. For a successful \<^verbatim>\<open>createWalletWithKeychains\<close> without \<^verbatim>\<open>backupXpub\<close>, with a cipher
  that decrypts what it encrypted: the user keychain returned carries the blob obtained by
  encrypting the user xprv under the passphrase, and decrypting that blob under the
  passphrase gives the user xprv; the first call is the registration of exactly the user
  xpub and this blob; the last call is the wallet-creation request, whose keychains are
  exactly three objects, holding the user xpub, the backup xpub and the xpub of the
  keychain with which the service answered the creation of the service keychain, which is
  also the service keychain returned.
\<close>

theorem createWallet_composition:
  assumes run: "createWalletWithKeychains E params w = (Inr res, w')"
      and nb: "\<not> truthy (field params ''backupXpub'')"
      and kc: "keychains_create E (rand w) = (upub, uprv)"
      and kb: "keychains_create E (Suc (Suc (rand w))) = (bpub, bprv)"
      and rt: "\<forall>i pw m c. encrypt E i pw m = Inr c \<longrightarrow> decrypt E pw c = Inr m"
  shows "\<exists>enc body r3.
           encrypt E (Suc (rand w)) (field params ''passphrase'') (JStr uprv) = Inr enc \<and>
           decrypt E (field params ''passphrase'') enc = Inr (JStr uprv) \<and>
           field res ''userKeychain''
             = JObj [(''xpub'', JStr upub), (''xprv'', JStr uprv), (''encryptedXprv'', enc)] \<and>
           issued w w'
             = [KeychainsAdd (JObj [(''xpub'', JStr upub), (''encryptedXprv'', enc)]),
                KeychainsAdd (JObj [(''xpub'', JStr bpub)]),
                KeychainsCreateBitGo,
                HttpPost (Path ''/wallet'') body] \<and>
           remote E (calls w @ [KeychainsAdd (JObj [(''xpub'', JStr upub),
                                                    (''encryptedXprv'', enc)]),
                                KeychainsAdd (JObj [(''xpub'', JStr bpub)])])
             KeychainsCreateBitGo = Inr r3 \<and>
           field res ''bitgoKeychain'' = r3 \<and>
           field body ''keychains''
             = JArr [JObj [(''xpub'', JStr upub)], JObj [(''xpub'', JStr bpub)],
                     JObj [(''xpub'', field r3 ''xpub'')]]"
proof -
  let ?b = "JObj [(''xpub'', JStr bpub), (''xprv'', JStr bprv)]"
  from createWallet_cases [OF run kc kb] nb
  obtain enc w1 where
    enc: "encrypt E (Suc (rand w)) (field params ''passphrase'') (JStr uprv) = Inr enc"
    and c: "calls w1 = calls w"
    and ch: "createWalletWithKeychains_chain E params
               (JObj [(''xpub'', JStr upub), (''xprv'', JStr uprv), (''encryptedXprv'', enc)])
               ?b w1 = (Inr res, w')"
    by auto
  let ?u = "JObj [(''xpub'', JStr upub), (''xprv'', JStr uprv), (''encryptedXprv'', enc)]"
  let ?a1 = "KeychainsAdd (JObj [(''xpub'', JStr upub), (''encryptedXprv'', enc)])"
  let ?a2 = "KeychainsAdd (JObj [(''xpub'', JStr bpub)])"
  have a1: "KeychainsAdd (key1Params ?u) = ?a1"
    by (simp add: key1Params_def)
  have a2: "KeychainsAdd (key2Params ?b) = ?a2"
    by (simp add: key2Params_def)
  have i: "issued w1 w' = issued w w'"
    using c by (rule issued_same_calls)
  from rt enc have dec: "decrypt E (field params ''passphrase'') enc = Inr (JStr uprv)"
    by blast
  from chain_result [OF ch] have u: "field res ''userKeychain'' = ?u"
    by blast
  from ch show ?thesis
  proof (cases rule: chain_cases)
    case (posted r1 r2 r3)
    let ?wp = "create_walletParams params (field ?u ''xpub'') (field ?b ''xpub'')
                 (field r3 ''xpub'')"
    from posted(3) have r3: "remote E (calls w @ [?a1, ?a2]) KeychainsCreateBitGo = Inr r3"
      by (simp add: a1 a2 c)
    from posted(4) have iss: "issued w w' = [?a1, ?a2, KeychainsCreateBitGo,
                                             HttpPost (Path ''/wallet'') ?wp]"
      by (simp add: a1 a2 i)
    have k: "field ?wp ''keychains''
               = JArr [JObj [(''xpub'', JStr upub)], JObj [(''xpub'', JStr bpub)],
                       JObj [(''xpub'', field r3 ''xpub'')]]"
      by (simp add: create_walletParams_fields)
    from posted(5) have bg: "field res ''bitgoKeychain'' = r3"
      by (auto split: sum.splits)
    from enc dec u iss r3 bg k show ?thesis by blast
  qed simp_all
qed

theorem createWallet_composition_witness:
  "encrypt sample_env (Suc (rand w0)) (field create_params ''passphrase'') (JStr ''xprv'')
     = Inr (JStr ''p@ss|xprv'')
   \<and> decrypt sample_env (field create_params ''passphrase'') (JStr ''p@ss|xprv'')
     = Inr (JStr ''xprv'')
   \<and> (\<exists>res w' enc body r3.
        createWalletWithKeychains sample_env create_params w0 = (Inr res, w') \<and>
        field res ''userKeychain''
          = JObj [(''xpub'', JStr ''xpub''), (''xprv'', JStr ''xprv''), (''encryptedXprv'', enc)] \<and>
        decrypt sample_env (field create_params ''passphrase'') enc = Inr (JStr ''xprv'') \<and>
        issued w0 w'
          = [KeychainsAdd (JObj [(''xpub'', JStr ''xpub''), (''encryptedXprv'', enc)]),
             KeychainsAdd (JObj [(''xpub'', JStr ''xpub++'')]),
             KeychainsCreateBitGo,
             HttpPost (Path ''/wallet'') body] \<and>
        remote sample_env (calls w0 @ [KeychainsAdd (JObj [(''xpub'', JStr ''xpub''),
                                                           (''encryptedXprv'', enc)]),
                                       KeychainsAdd (JObj [(''xpub'', JStr ''xpub++'')])])
          KeychainsCreateBitGo = Inr r3 \<and>
        r3 = JObj [(''xpub'', JStr ''xpub-bitgo'')] \<and>
        field res ''bitgoKeychain'' = r3 \<and>
        field body ''keychains''
          = JArr [JObj [(''xpub'', JStr ''xpub'')], JObj [(''xpub'', JStr ''xpub++'')],
                  JObj [(''xpub'', JStr ''xpub-bitgo'')]])"
proof -
  have nb: "\<not> truthy (field create_params ''backupXpub'')"
    by (simp add: create_params_def)
  have kc: "keychains_create sample_env (rand w0) = (''xpub'', ''xprv'')"
    by (simp add: sample_defs)
  have kb: "keychains_create sample_env (Suc (Suc (rand w0))) = (''xpub++'', ''xprv++'')"
    by (simp add: sample_defs)
  have rt: "\<forall>i pw m c. encrypt sample_env i pw m = Inr c \<longrightarrow> decrypt sample_env pw c = Inr m"
  proof (intro allI impI)
    fix i pw m c
    assume "encrypt sample_env i pw m = Inr c"
    then show "decrypt sample_env pw c = Inr m"
      by (cases pw; cases m) (auto simp: sample_env_def)
  qed
  have e: "encrypt sample_env (Suc (rand w0)) (field create_params ''passphrase'')
             (JStr ''xprv'') = Inr (JStr ''p@ss|xprv'')"
    by (simp add: sample_env_def create_params_def)
  have d: "decrypt sample_env (field create_params ''passphrase'') (JStr ''p@ss|xprv'')
             = Inr (JStr ''xprv'')"
    by (simp add: sample_env_def create_params_def)
  have s: "remote sample_env h KeychainsCreateBitGo = Inr r3 \<Longrightarrow>
           r3 = JObj [(''xpub'', JStr ''xpub-bitgo'')]" for h r3
    by (auto simp: sample_env_def)
  from createWallet_composition [OF sample_create_run nb kc kb rt]
  obtain enc body r3 where
    en: "encrypt sample_env (Suc (rand w0)) (field create_params ''passphrase'')
           (JStr ''xprv'') = Inr enc"
    and de: "decrypt sample_env (field create_params ''passphrase'') enc = Inr (JStr ''xprv'')"
    and iss: "issued w0 \<lparr>calls = [KeychainsAdd (JObj [(''xpub'', JStr ''xpub''),
                                     (''encryptedXprv'', JStr ''p@ss|xprv'')]),
                KeychainsAdd (JObj [(''xpub'', JStr ''xpub++'')]),
                KeychainsCreateBitGo,
                HttpPost (Path ''/wallet'') (wallet_params
                    [JObj [(''xpub'', JStr ''xpub'')], JObj [(''xpub'', JStr ''xpub++'')],
                     JObj [(''xpub'', JStr ''xpub-bitgo'')]])],
       rand = 3\<rparr>
          = [KeychainsAdd (JObj [(''xpub'', JStr ''xpub''), (''encryptedXprv'', enc)]),
             KeychainsAdd (JObj [(''xpub'', JStr ''xpub++'')]),
             KeychainsCreateBitGo,
             HttpPost (Path ''/wallet'') body]"
    and r3: "remote sample_env (calls w0 @ [KeychainsAdd (JObj [(''xpub'', JStr ''xpub''),
                                                                (''encryptedXprv'', enc)]),
                                            KeychainsAdd (JObj [(''xpub'', JStr ''xpub++'')])])
               KeychainsCreateBitGo = Inr r3"
    and body: "field body ''keychains''
                 = JArr [JObj [(''xpub'', JStr ''xpub'')], JObj [(''xpub'', JStr ''xpub++'')],
                         JObj [(''xpub'', field r3 ''xpub'')]]"
    by blast
  from en e have enc: "enc = JStr ''p@ss|xprv''"
    by simp
  from s [OF r3] have r3': "r3 = JObj [(''xpub'', JStr ''xpub-bitgo'')]" .
  from body r3' have body': "field body ''keychains''
                 = JArr [JObj [(''xpub'', JStr ''xpub'')], JObj [(''xpub'', JStr ''xpub++'')],
                         JObj [(''xpub'', JStr ''xpub-bitgo'')]]"
    by simp
  have run: "\<exists>res w'.
        createWalletWithKeychains sample_env create_params w0 = (Inr res, w') \<and>
        field res ''userKeychain''
          = JObj [(''xpub'', JStr ''xpub''), (''xprv'', JStr ''xprv''), (''encryptedXprv'', enc)] \<and>
        issued w0 w'
          = [KeychainsAdd (JObj [(''xpub'', JStr ''xpub''), (''encryptedXprv'', enc)]),
             KeychainsAdd (JObj [(''xpub'', JStr ''xpub++'')]),
             KeychainsCreateBitGo,
             HttpPost (Path ''/wallet'') body] \<and>
        field res ''bitgoKeychain'' = r3"
    using iss by (simp add: sample_create_run enc r3')
  from run de r3 r3' body' e d show ?thesis
    by blast
qed


text \<open>The calls of the chain depend on the backup keychain through its xpub only.\<close>

lemma chain_calls_xpub:
  assumes "field b ''xpub'' = field b' ''xpub''"
  shows "calls (snd (createWalletWithKeychains_chain E p u b w))
           = calls (snd (createWalletWithKeychains_chain E p u b' w))"
proof -
  have k: "key2Params b = key2Params b'"
    using assms by (simp add: key2Params_def)
  show ?thesis
    by (simp add: chain_run k assms Let_def split: sum.splits option.splits)
qed

lemma perform_with_xprv [simp]: "perform (with_xprv E i prv) = perform E"
  by (intro ext) (simp add: perform_def with_xprv_def)

lemma validate_with_xprv [simp]: "validate (with_xprv E i prv) = validate E"
  by (intro ext) (simp add: validate_def with_xprv_def)

lemma new_Wallet_with_xprv [simp]: "new_Wallet (with_xprv E i prv) = new_Wallet E"
  by (simp add: with_xprv_def)

lemma add_with_xprv [simp]: "add (with_xprv E i prv) = add E"
  by (intro ext) (simp add: add_def cong: if_cong)

lemma chain_with_xprv [simp]:
  "createWalletWithKeychains_chain (with_xprv E i prv) = createWalletWithKeychains_chain E"
  by (intro ext) (simp add: createWalletWithKeychains_chain_def)

lemma createWallet_with_xprv:
  assumes kc: "keychains_create E (rand w) = (upub, uprv)"
      and kb: "keychains_create E (Suc (Suc (rand w))) = (bpub, bprv)"
  shows "calls (snd (createWalletWithKeychains (with_xprv E (Suc (Suc (rand w))) prv) params w))
           = calls (snd (createWalletWithKeychains E params w))"
proof -
  let ?E = "with_xprv E (Suc (Suc (rand w))) prv"
  have kc': "keychains_create ?E (rand w) = (upub, uprv)"
    using kc by (simp add: with_xprv_def)
  have kb': "keychains_create ?E (Suc (Suc (rand w))) = (bpub, prv)"
    using kb by (simp add: with_xprv_def)
  have same: "validateParams ?E = validateParams E" "encrypt ?E = encrypt E"
    by (simp_all add: with_xprv_def)
  have x: "calls (snd (createWalletWithKeychains_chain E params u
                   (JObj [(''xpub'', JStr bpub), (''xprv'', JStr prv)]) w1))
           = calls (snd (createWalletWithKeychains_chain E params u
                   (JObj [(''xpub'', JStr bpub), (''xprv'', JStr bprv)]) w1))" for u w1
    by (rule chain_calls_xpub) simp
  show ?thesis
    by (simp add: createWallet_run [OF kc' kb'] createWallet_run [OF kc kb] same x
        split: option.splits sum.splits)
qed

lemma createWallet_cold_backup:
  assumes "truthy (field params ''backupXpub'')"
  shows "createWalletWithKeychains (with_xprv E (Suc (Suc (rand w))) prv) params w
           = createWalletWithKeychains E params w"
proof -
  obtain upub uprv where kc: "keychains_create E (rand w) = (upub, uprv)"
    by (cases "keychains_create E (rand w)")
  obtain bpub bprv where kb: "keychains_create E (Suc (Suc (rand w))) = (bpub, bprv)"
    by (cases "keychains_create E (Suc (Suc (rand w)))")
  let ?E = "with_xprv E (Suc (Suc (rand w))) prv"
  have kc': "keychains_create ?E (rand w) = (upub, uprv)"
    using kc by (simp add: with_xprv_def)
  have kb': "keychains_create ?E (Suc (Suc (rand w))) = (bpub, prv)"
    using kb by (simp add: with_xprv_def)
  have same: "validateParams ?E = validateParams E" "encrypt ?E = encrypt E"
    by (simp_all add: with_xprv_def)
  show ?thesis
    using assms
    by (simp add: createWallet_run [OF kc' kb'] createWallet_run [OF kc kb] same
        cong: option.case_cong sum.case_cong)
qed


text \<open>
  C4. With \<^verbatim>\<open>backupXpub\<close> supplied, the backup keychain returned is \<^verbatim>\<open>{xpub: backupXpub}\<close>
  and no other field, its registration carries that xpub only, and the run does not depend
  on what the key generator would have produced for a backup key. Without it, the backup
  keychain returned holds the generated xpub and xprv, its registration is
  \<^verbatim>\<open>{xpub: ...}\<close> with the generated xpub and no other field, and the calls issued are the
  same whatever the generated xprv is: nothing sent depends on the private key.
\<close>

theorem createWallet_backup_key_stays_local:
  assumes run: "createWalletWithKeychains E params w = (r, w')"
      and kb: "keychains_create E (Suc (Suc (rand w))) = (bpub, bprv)"
  shows "(truthy (field params ''backupXpub'') \<longrightarrow>
            (\<forall>res. r = Inr res \<longrightarrow>
               field res ''backupKeychain'' = JObj [(''xpub'', field params ''backupXpub'')]) \<and>
            (\<forall>c1 c cs. issued w w' = c1 # c # cs \<longrightarrow>
               c = KeychainsAdd (JObj [(''xpub'', field params ''backupXpub'')])) \<and>
            (\<forall>prv. createWalletWithKeychains (with_xprv E (Suc (Suc (rand w))) prv) params w
                     = (r, w')))
       \<and> (\<not> truthy (field params ''backupXpub'') \<longrightarrow>
            (\<forall>res. r = Inr res \<longrightarrow>
               field res ''backupKeychain''
                 = JObj [(''xpub'', JStr bpub), (''xprv'', JStr bprv)]) \<and>
            (\<forall>c1 c cs. issued w w' = c1 # c # cs \<longrightarrow>
               c = KeychainsAdd (JObj [(''xpub'', JStr bpub)])) \<and>
            (\<forall>prv. issued w (snd (createWalletWithKeychains
                                     (with_xprv E (Suc (Suc (rand w))) prv) params w))
                     = issued w w'))"
proof -
  obtain upub uprv where kc: "keychains_create E (rand w) = (upub, uprv)"
    by (cases "keychains_create E (rand w)")
  let ?b = "if \<not> truthy (field params ''backupXpub'')
            then JObj [(''xpub'', JStr bpub), (''xprv'', JStr bprv)]
            else JObj [(''xpub'', field params ''backupXpub'')]"
  have res: "field res ''backupKeychain'' = ?b" if "r = Inr res" for res
  proof -
    from createWallet_cases [OF run kc kb] that
    obtain u w1 where "createWalletWithKeychains_chain E params u ?b w1 = (Inr res, w')"
      by auto
    from chain_result [OF this] show ?thesis by blast
  qed
  have snd: "c = KeychainsAdd (key2Params ?b)" if "issued w w' = c1 # c # cs" for c1 c cs
  proof -
    from createWallet_cases [OF run kc kb] that
    obtain u w1 where c: "calls w1 = calls w"
      and ch: "createWalletWithKeychains_chain E params u ?b w1 = (r, w')"
      by auto
    have "issued w1 w' = issued w w'"
      using c by (rule issued_same_calls)
    with chain_first_calls [OF ch] that show ?thesis
      by auto
  qed
  have indep: "issued w (snd (createWalletWithKeychains
                                 (with_xprv E (Suc (Suc (rand w))) prv) params w))
                 = issued w w'" for prv
    using createWallet_with_xprv [OF kc kb, of prv params] run
    by (simp add: issued_def)
  have cold: "createWalletWithKeychains (with_xprv E (Suc (Suc (rand w))) prv) params w
                = (r, w')" if "truthy (field params ''backupXpub'')" for prv
    using createWallet_cold_backup [OF that, of E w prv] run by simp
  show ?thesis
  proof (cases "truthy (field params ''backupXpub'')")
    case True
    from True res have a: "\<forall>res. r = Inr res \<longrightarrow>
        field res ''backupKeychain'' = JObj [(''xpub'', field params ''backupXpub'')]"
      by simp
    from True snd have b: "\<forall>c1 c cs. issued w w' = c1 # c # cs \<longrightarrow>
        c = KeychainsAdd (JObj [(''xpub'', field params ''backupXpub'')])"
      by (simp add: key2Params_def)
    from True a b cold show ?thesis by simp
  next
    case False
    from False res have a: "\<forall>res. r = Inr res \<longrightarrow>
        field res ''backupKeychain'' = JObj [(''xpub'', JStr bpub), (''xprv'', JStr bprv)]"
      by simp
    from False snd have b: "\<forall>c1 c cs. issued w w' = c1 # c # cs \<longrightarrow>
        c = KeychainsAdd (JObj [(''xpub'', JStr bpub)])"
      by (simp add: key2Params_def)
    from False a b indep show ?thesis by simp
  qed
qed

lemma sample_create_cold_run:
  "createWalletWithKeychains sample_env create_params_cold w0 =
     (Inr (JObj [(''wallet'', JObj [(''wallet'', wallet_params
                    [JObj [(''xpub'', JStr ''xpub'')], JObj [(''xpub'', JStr ''xpub-cold'')],
                     JObj [(''xpub'', JStr ''xpub-bitgo'')]])]),
                 (''userKeychain'', JObj [(''xpub'', JStr ''xpub''), (''xprv'', JStr ''xprv''),
                                          (''encryptedXprv'', JStr ''p@ss|xprv'')]),
                 (''backupKeychain'', JObj [(''xpub'', JStr ''xpub-cold'')]),
                 (''bitgoKeychain'', JObj [(''xpub'', JStr ''xpub-bitgo'')]),
                 (''warning'',
                  JStr ''Be sure to backup the backup keychain -- it is not stored anywhere else!'')]),
      \<lparr>calls = [KeychainsAdd (JObj [(''xpub'', JStr ''xpub''),
                                     (''encryptedXprv'', JStr ''p@ss|xprv'')]),
                KeychainsAdd (JObj [(''xpub'', JStr ''xpub-cold'')]),
                KeychainsCreateBitGo,
                HttpPost (Path ''/wallet'') (wallet_params
                    [JObj [(''xpub'', JStr ''xpub'')], JObj [(''xpub'', JStr ''xpub-cold'')],
                     JObj [(''xpub'', JStr ''xpub-bitgo'')]])],
       rand = 2\<rparr>)"
proof -
  have kc: "keychains_create sample_env (rand w0) = (''xpub'', ''xprv'')"
    by (simp add: sample_defs)
  have kb: "keychains_create sample_env (Suc (Suc (rand w0))) = (''xpub++'', ''xprv++'')"
    by (simp add: sample_defs)
  show ?thesis
    by (subst createWallet_run [OF kc kb])
      (simp add: chain_run key1Params_def key2Params_def
        create_walletParams_def create_params_cold_def wallet_params_def get_prop_def
        sample_defs Let_def)
qed

theorem createWallet_backup_key_stays_local_witness:
  "(\<exists>res w'. createWalletWithKeychains sample_env create_params w0 = (Inr res, w') \<and>
       field res ''backupKeychain''
         = JObj [(''xpub'', JStr ''xpub++''), (''xprv'', JStr ''xprv++'')])
   \<and> issued w0 (snd (createWalletWithKeychains
                       (with_xprv sample_env (Suc (Suc (rand w0))) ''another key'')
                       create_params w0))
     = [KeychainsAdd (JObj [(''xpub'', JStr ''xpub''), (''encryptedXprv'', JStr ''p@ss|xprv'')]),
        KeychainsAdd (JObj [(''xpub'', JStr ''xpub++'')]),
        KeychainsCreateBitGo,
        HttpPost (Path ''/wallet'') (wallet_params
          [JObj [(''xpub'', JStr ''xpub'')], JObj [(''xpub'', JStr ''xpub++'')],
           JObj [(''xpub'', JStr ''xpub-bitgo'')]])]
   \<and> (\<exists>res w'. createWalletWithKeychains sample_env create_params_cold w0 = (Inr res, w') \<and>
       field res ''backupKeychain'' = JObj [(''xpub'', JStr ''xpub-cold'')] \<and>
       createWalletWithKeychains
         (with_xprv sample_env (Suc (Suc (rand w0))) ''another key'') create_params_cold w0
         = (Inr res, w'))"
proof -
  have nb: "\<not> truthy (field create_params ''backupXpub'')"
    by (simp add: create_params_def)
  have cold: "truthy (field create_params_cold ''backupXpub'')"
    "field create_params_cold ''backupXpub'' = JStr ''xpub-cold''"
    by (simp_all add: create_params_cold_def)
  have kb: "keychains_create sample_env (Suc (Suc (rand w0))) = (''xpub++'', ''xprv++'')"
    by (simp add: sample_defs)
  from createWallet_backup_key_stays_local [OF sample_create_run kb] nb
  have a: "(\<exists>res w'. createWalletWithKeychains sample_env create_params w0 = (Inr res, w') \<and>
       field res ''backupKeychain''
         = JObj [(''xpub'', JStr ''xpub++''), (''xprv'', JStr ''xprv++'')])"
    and b: "issued w0 (snd (createWalletWithKeychains
                       (with_xprv sample_env (Suc (Suc (rand w0))) ''another key'')
                       create_params w0))
     = [KeychainsAdd (JObj [(''xpub'', JStr ''xpub''), (''encryptedXprv'', JStr ''p@ss|xprv'')]),
        KeychainsAdd (JObj [(''xpub'', JStr ''xpub++'')]),
        KeychainsCreateBitGo,
        HttpPost (Path ''/wallet'') (wallet_params
          [JObj [(''xpub'', JStr ''xpub'')], JObj [(''xpub'', JStr ''xpub++'')],
           JObj [(''xpub'', JStr ''xpub-bitgo'')]])]"
    using sample_create_run by (simp_all add: issued_def w0_def)
  from createWallet_backup_key_stays_local [OF sample_create_cold_run kb] cold
  have c: "(\<exists>res w'. createWalletWithKeychains sample_env create_params_cold w0 = (Inr res, w') \<and>
       field res ''backupKeychain'' = JObj [(''xpub'', JStr ''xpub-cold'')] \<and>
       createWalletWithKeychains
         (with_xprv sample_env (Suc (Suc (rand w0))) ''another key'') create_params_cold w0
         = (Inr res, w'))"
    using sample_create_cold_run by simp
  from a b c show ?thesis by blast
qed

end
